theory Spec2Isabelle
  imports Complex_Main "HOL-Library.Char_ord" "HOL-Library.List_Lexorder"
begin

section \<open>JavaScript numbers\<close>

text \<open>
  A JavaScript number is an IEEE-754 double: a finite value, \<open>NaN\<close>, or one of the two
  infinities. A finite double is kept as the real number it denotes; the two zeros are
  not told apart, since they differ only in the sign of a quotient by zero, and every
  divisor in the services is a constant or a positive count. Every arithmetic operation
  computes the exact real result and rounds it to the nearest double, ties to the even
  significand, as the hardware does. An optional number (\<open>height_meters?: number\<close>, or a nullable column of
  a row) is a \<open>jsnum option\<close>, with \<open>None\<close> for \<open>undefined\<close> and \<open>null\<close>.
\<close>

datatype jsnum = Num real | NaN | PosInf | NegInf

text \<open>
  The exponent of the binade of \<open>x\<close>, not below that of the subnormal numbers, and the
  distance between neighbouring doubles there (52 fraction bits).
\<close>

definition binade :: "real \<Rightarrow> int" where
  "binade x = max \<lfloor>log 2 \<bar>x\<bar>\<rfloor> (- 1022)"

definition ulp :: "real \<Rightarrow> real" where
  "ulp x = 2 powi (binade x - 52)"

definition round_even :: "real \<Rightarrow> int" where
  "round_even y =
     (let f = \<lfloor>y\<rfloor>; d = y - of_int f
      in if d < 1 / 2 then f else if 1 / 2 < d then f + 1 else if even f then f else f + 1)"

text \<open>Rounding a real to the nearest double; beyond the largest double it overflows.\<close>

definition to_double :: "real \<Rightarrow> jsnum" where
  "to_double x =
     (let y = of_int (round_even (x / ulp x)) * ulp x
      in if 2 ^ 1024 \<le> \<bar>y\<bar> then (if 0 < x then PosInf else NegInf) else Num y)"

text \<open>
  A decimal literal of the source, such as \<open>0.47\<close>, denotes the double nearest to it.
  Literals that are doubles already (\<open>100\<close>, \<open>2.5\<close>) are written with \<open>Num\<close>.
\<close>

definition lit :: "real \<Rightarrow> jsnum" where
  "lit x = to_double x"

fun fneg :: "jsnum \<Rightarrow> jsnum" where
  "fneg (Num x) = Num (- x)"
| "fneg NaN = NaN"
| "fneg PosInf = NegInf"
| "fneg NegInf = PosInf"

text \<open>The operators \<open>+\<close>, \<open>-\<close>, \<open>*\<close> and \<open>/\<close> on numbers.\<close>

fun fadd :: "jsnum \<Rightarrow> jsnum \<Rightarrow> jsnum" where
  "fadd (Num x) (Num y) = to_double (x + y)"
| "fadd NaN b = NaN"
| "fadd a NaN = NaN"
| "fadd PosInf NegInf = NaN"
| "fadd NegInf PosInf = NaN"
| "fadd PosInf b = PosInf"
| "fadd a PosInf = PosInf"
| "fadd NegInf b = NegInf"
| "fadd a NegInf = NegInf"

definition fsub :: "jsnum \<Rightarrow> jsnum \<Rightarrow> jsnum" where
  "fsub a b = fadd a (fneg b)"

fun fmul :: "jsnum \<Rightarrow> jsnum \<Rightarrow> jsnum" where
  "fmul (Num x) (Num y) = to_double (x * y)"
| "fmul NaN b = NaN"
| "fmul a NaN = NaN"
| "fmul (Num x) b = (if x = 0 then NaN else if 0 < x then b else fneg b)"
| "fmul a (Num y) = (if y = 0 then NaN else if 0 < y then a else fneg a)"
| "fmul PosInf PosInf = PosInf"
| "fmul PosInf NegInf = NegInf"
| "fmul NegInf PosInf = NegInf"
| "fmul NegInf NegInf = PosInf"

fun fdiv :: "jsnum \<Rightarrow> jsnum \<Rightarrow> jsnum" where
  "fdiv (Num x) (Num y) =
     (if y = 0 then (if x = 0 then NaN else if 0 < x then PosInf else NegInf)
      else to_double (x / y))"
| "fdiv NaN b = NaN"
| "fdiv a NaN = NaN"
| "fdiv (Num x) b = Num 0"
| "fdiv a (Num y) = (if 0 \<le> y then a else fneg a)"
| "fdiv PosInf PosInf = NaN"
| "fdiv PosInf NegInf = NaN"
| "fdiv NegInf PosInf = NaN"
| "fdiv NegInf NegInf = NaN"

text \<open>The comparisons \<open>a > 0\<close> and \<open>a >= b\<close>; every comparison with \<open>NaN\<close> is false.\<close>

fun gt0 :: "jsnum \<Rightarrow> bool" where
  "gt0 (Num x) = (0 < x)"
| "gt0 NaN = False"
| "gt0 PosInf = True"
| "gt0 NegInf = False"

fun js_ge :: "jsnum \<Rightarrow> jsnum \<Rightarrow> bool" where
  "js_ge NaN b = False"
| "js_ge a NaN = False"
| "js_ge (Num x) (Num y) = (y \<le> x)"
| "js_ge PosInf b = True"
| "js_ge a NegInf = True"
| "js_ge a PosInf = False"
| "js_ge NegInf b = False"

text \<open>A number in a condition: \<open>0\<close> and \<open>NaN\<close> are falsy.\<close>

fun truthy :: "jsnum \<Rightarrow> bool" where
  "truthy (Num x) = (x \<noteq> 0)"
| "truthy NaN = False"
| "truthy PosInf = True"
| "truthy NegInf = True"

text \<open>
  The guard \<open>x && x > 0\<close> on an optional number: \<open>undefined\<close>, \<open>0\<close> and \<open>NaN\<close> are
  falsy, anything else goes on to the comparison.
\<close>

fun truthy_gt0 :: "jsnum option \<Rightarrow> bool" where
  "truthy_gt0 None = False"
| "truthy_gt0 (Some x) = (truthy x \<and> gt0 x)"

text \<open>\<open>v || d\<close> on a number: a falsy \<open>v\<close> is replaced by \<open>d\<close>.\<close>

definition or_default :: "jsnum \<Rightarrow> jsnum \<Rightarrow> jsnum" where
  "or_default v d = (if truthy v then v else d)"

text \<open>\<open>Math.round\<close> rounds to the nearest integer, halves towards plus infinity.\<close>

fun Math_round :: "jsnum \<Rightarrow> jsnum" where
  "Math_round (Num x) = Num (of_int \<lfloor>x + 1 / 2\<rfloor>)"
| "Math_round NaN = NaN"
| "Math_round PosInf = PosInf"
| "Math_round NegInf = NegInf"

text \<open>\<open>Math.max\<close> of two numbers: \<open>NaN\<close> as soon as one of them is.\<close>

fun Math_max :: "jsnum \<Rightarrow> jsnum \<Rightarrow> jsnum" where
  "Math_max (Num x) (Num y) = Num (max x y)"
| "Math_max NaN b = NaN"
| "Math_max a NaN = NaN"
| "Math_max PosInf b = PosInf"
| "Math_max a PosInf = PosInf"
| "Math_max NegInf b = b"
| "Math_max a NegInf = a"

text \<open>\<open>Math.sqrt\<close>, the correctly rounded square root, and \<open>Math.PI\<close>.\<close>

fun Math_sqrt :: "jsnum \<Rightarrow> jsnum" where
  "Math_sqrt (Num x) = (if x < 0 then NaN else to_double (sqrt x))"
| "Math_sqrt NaN = NaN"
| "Math_sqrt PosInf = PosInf"
| "Math_sqrt NegInf = NaN"

definition Math_PI :: jsnum where
  "Math_PI = to_double pi"

text \<open>
  \<open>Math.pow\<close>. The language fixes its value at \<open>NaN\<close>, the infinities and zero, and makes
  it \<open>NaN\<close> for a negative base with an exponent that is not an integer; everywhere else
  the result is an approximation that the host chooses. That choice is the parameter
  \<open>pw\<close>, called with a finite non-zero base and a finite non-zero exponent.
\<close>

definition is_integer :: "real \<Rightarrow> bool" where
  "is_integer y = (y = of_int \<lfloor>y\<rfloor>)"

definition is_odd_integer :: "real \<Rightarrow> bool" where
  "is_odd_integer y = (is_integer y \<and> odd \<lfloor>y\<rfloor>)"

fun Math_pow :: "(real \<Rightarrow> real \<Rightarrow> jsnum) \<Rightarrow> jsnum \<Rightarrow> jsnum \<Rightarrow> jsnum" where
  "Math_pow pw b NaN = NaN"
| "Math_pow pw b (Num y) =
     (if y = 0 then Num 1
      else case b of
        NaN \<Rightarrow> NaN
      | PosInf \<Rightarrow> if 0 < y then PosInf else Num 0
      | NegInf \<Rightarrow> if 0 < y then (if is_odd_integer y then NegInf else PosInf) else Num 0
      | Num x \<Rightarrow>
          if x = 0 then (if 0 < y then Num 0 else PosInf)
          else if x < 0 \<and> \<not> is_integer y then NaN
          else pw x y)"
| "Math_pow pw b PosInf =
     (case b of
        NaN \<Rightarrow> NaN
      | Num x \<Rightarrow> if 1 < \<bar>x\<bar> then PosInf else if \<bar>x\<bar> = 1 then NaN else Num 0
      | PosInf \<Rightarrow> PosInf
      | NegInf \<Rightarrow> PosInf)"
| "Math_pow pw b NegInf =
     (case b of
        NaN \<Rightarrow> NaN
      | Num x \<Rightarrow> if 1 < \<bar>x\<bar> then Num 0 else if \<bar>x\<bar> = 1 then NaN else PosInf
      | PosInf \<Rightarrow> Num 0
      | NegInf \<Rightarrow> Num 0)"

text \<open>
  The host in which the power is correctly rounded. The examples below call it only
  where the power is a double itself, so that any host returns the same number.
\<close>

definition rounded_pow :: "real \<Rightarrow> real \<Rightarrow> jsnum" where
  "rounded_pow x y = to_double (if 0 < x then x powr y else x powi \<lfloor>y\<rfloor>)"

section \<open>JavaScript strings\<close>

text \<open>\<open>String.prototype.includes\<close>: \<open>key\<close> occurs in \<open>s\<close> as a contiguous substring.\<close>

fun starts_with :: "string \<Rightarrow> string \<Rightarrow> bool" where
  "starts_with s [] = True"
| "starts_with [] (k # ks) = False"
| "starts_with (c # cs) (k # ks) = (c = k \<and> starts_with cs ks)"

fun str_includes :: "string \<Rightarrow> string \<Rightarrow> bool" where
  "str_includes [] key = (key = [])"
| "str_includes (c # cs) key = (starts_with (c # cs) key \<or> str_includes cs key)"

text \<open>\<open>String.prototype.toUpperCase\<close> on ASCII letters.\<close>

definition upper_char :: "char \<Rightarrow> char" where
  "upper_char c =
     (case map_of (zip ''abcdefghijklmnopqrstuvwxyz'' ''ABCDEFGHIJKLMNOPQRSTUVWXYZ'') c of
        Some u \<Rightarrow> u
      | None \<Rightarrow> c)"

definition toUpperCase :: "string \<Rightarrow> string" where
  "toUpperCase s = map upper_char s"

section \<open>Biomass estimation (services/biomassEstimation)\<close>

record TreeMeasurements =
  height_meters :: "jsnum option"
  dbh_cm :: "jsnum option"
  canopy_cover_m2 :: "jsnum option"
  species_code :: "string option"

text \<open>
  A row of \<open>tree_species\<close>. The fields \<open>id\<close>, \<open>species_code\<close> and \<open>uncertainty_pct\<close>
  carry the prefix \<open>species_\<close> here, since the other records use the same names.
\<close>

record SpeciesData =
  species_id :: int
  species_key :: string
  common_name :: string
  scientific_name :: string
  wood_density_kg_m3 :: jsnum
  allometric_a :: jsnum
  allometric_b :: jsnum
  species_uncertainty_pct :: jsnum
  equation_source :: string

record BiomassEstimate =
  biomass_estimate_kg :: jsnum
  carbon_sequestration_kg :: jsnum
  co2_equivalent_kg :: jsnum
  uncertainty_pct :: jsnum
  method_label :: string
  confidence_pct :: jsnum
  species_data :: "SpeciesData option"

datatype estimate_error = InsufficientMeasurements

text \<open>
  The table \<open>tree_species\<close> is a partial map from the species code to its row.
  \<open>getSpeciesData\<close> queries it with the upper-cased code, and answers \<open>null\<close> both when
  no row matches and when the query fails.
\<close>

type_synonym species_table = "string \<Rightarrow> SpeciesData option"

definition getSpeciesData :: "species_table \<Rightarrow> string \<Rightarrow> SpeciesData option" where
  "getSpeciesData tbl speciesCode = tbl (toUpperCase speciesCode)"

text \<open>
  \<open>getMethodUncertainty\<close>: the entries of the table are tried in the order they are
  written, and the first key that the method label includes gives the value.
\<close>

definition uncertainties :: "(string \<times> jsnum) list" where
  "uncertainties =
     [(''allometric_species_'', Num 15),
      (''allometric_generic'', Num 20),
      (''allometric_crown_estimated'', Num 25),
      (''height_only_estimation'', Num 35),
      (''crown_area_estimation'', Num 40)]"

fun first_including :: "string \<Rightarrow> (string \<times> jsnum) list \<Rightarrow> jsnum" where
  "first_including m [] = Num 30"
| "first_including m ((key, uncertainty) # rest) =
     (if str_includes m key then uncertainty else first_including m rest)"

definition getMethodUncertainty :: "string \<Rightarrow> jsnum" where
  "getMethodUncertainty m = first_including m uncertainties"

text \<open>
  The four branches of \<open>estimateBiomass\<close>, in the order of the source. Each gives the raw
  biomass, the method label and the confidence; \<open>None\<close> is the final \<open>else\<close>, which throws.
\<close>

definition select_method ::
  "(real \<Rightarrow> real \<Rightarrow> jsnum) \<Rightarrow> TreeMeasurements \<Rightarrow> SpeciesData option
     \<Rightarrow> (jsnum \<times> string \<times> jsnum) option" where
  "select_method pw measurements speciesData =
     (let woodDensity = (case speciesData of None \<Rightarrow> lit 0.6
                         | Some s \<Rightarrow> or_default (wood_density_kg_m3 s) (lit 0.6));
          allometricA = (case speciesData of None \<Rightarrow> lit 0.0673
                         | Some s \<Rightarrow> or_default (allometric_a s) (lit 0.0673));
          allometricB = (case speciesData of None \<Rightarrow> lit 0.976
                         | Some s \<Rightarrow> or_default (allometric_b s) (lit 0.976));
          speciesUncertainty = (case speciesData of None \<Rightarrow> Num 25
                                | Some s \<Rightarrow> or_default (species_uncertainty_pct s) (Num 25))
      in
      if truthy_gt0 (dbh_cm measurements) \<and> truthy_gt0 (height_meters measurements) then
        (let dbhM = fdiv (the (dbh_cm measurements)) (Num 100) in
         Some (fmul allometricA
                 (Math_pow pw
                    (fmul (fmul woodDensity (Math_pow pw dbhM (Num 2)))
                       (the (height_meters measurements)))
                    allometricB),
               (case speciesData of
                  Some s \<Rightarrow> ''allometric_species_'' @ the (species_code measurements)
                | None \<Rightarrow> ''allometric_generic''),
               (case speciesData of
                  Some s \<Rightarrow> fsub (Num 100) speciesUncertainty
                | None \<Rightarrow> Num 75)))
      else if truthy_gt0 (height_meters measurements)
              \<and> truthy_gt0 (canopy_cover_m2 measurements) then
        (let crownDiameter =
               fmul (Math_sqrt (fdiv (the (canopy_cover_m2 measurements)) Math_PI)) (Num 2);
             estimatedDbhCm = fmul crownDiameter (Num 80);
             estimatedDbhM = fdiv estimatedDbhCm (Num 100) in
         Some (fmul allometricA
                 (Math_pow pw
                    (fmul (fmul woodDensity (Math_pow pw estimatedDbhM (Num 2)))
                       (the (height_meters measurements)))
                    allometricB),
               ''allometric_crown_estimated'', Num 60))
      else if truthy_gt0 (height_meters measurements) then
        Some (fmul (fmul (Math_pow pw (the (height_meters measurements)) (Num 2.5)) woodDensity)
                (Num 2.5),
              ''height_only_estimation'', Num 40)
      else if truthy_gt0 (canopy_cover_m2 measurements) then
        Some (fmul (fmul (the (canopy_cover_m2 measurements)) woodDensity) (Num 15),
              ''crown_area_estimation'', Num 35)
      else None)"

text \<open>
  The species lookup at the head of \<open>estimateBiomass\<close>: only a truthy (non-empty)
  \<open>species_code\<close> is looked up.
\<close>

definition resolve_species :: "species_table \<Rightarrow> TreeMeasurements \<Rightarrow> SpeciesData option" where
  "resolve_species tbl measurements =
     (case species_code measurements of
        None \<Rightarrow> None
      | Some c \<Rightarrow> if c = [] then None else getSpeciesData tbl c)"

definition estimateBiomass ::
  "(real \<Rightarrow> real \<Rightarrow> jsnum) \<Rightarrow> species_table \<Rightarrow> TreeMeasurements
     \<Rightarrow> estimate_error + BiomassEstimate" where
  "estimateBiomass pw tbl measurements =
     (let speciesData = resolve_species tbl measurements;
          speciesUncertainty = (case speciesData of None \<Rightarrow> Num 25
                                | Some s \<Rightarrow> or_default (species_uncertainty_pct s) (Num 25))
      in
      case select_method pw measurements speciesData of
        None \<Rightarrow> Inl InsufficientMeasurements
      | Some (raw, m, confidence) \<Rightarrow>
          (let biomassKg = Math_max raw (lit 0.1);
               carbonFraction = lit 0.47;
               carbonKg = fmul biomassKg carbonFraction;
               co2EquivalentKg = fmul carbonKg (lit 3.67);
               baseUncertainty = getMethodUncertainty m;
               finalUncertainty =
                 (case speciesData of
                    Some s \<Rightarrow> Math_sqrt (fadd (Math_pow pw baseUncertainty (Num 2))
                                           (Math_pow pw speciesUncertainty (Num 2)))
                  | None \<Rightarrow> baseUncertainty)
           in Inr \<lparr>biomass_estimate_kg = fdiv (Math_round (fmul biomassKg (Num 100))) (Num 100),
                    carbon_sequestration_kg = fdiv (Math_round (fmul carbonKg (Num 100))) (Num 100),
                    co2_equivalent_kg =
                      fdiv (Math_round (fmul co2EquivalentKg (Num 100))) (Num 100),
                    uncertainty_pct = fdiv (Math_round (fmul finalUncertainty (Num 10))) (Num 10),
                    method_label = m,
                    confidence_pct = confidence,
                    species_data = speciesData\<rparr>))"

section \<open>Plot aggregation (\<open>estimatePlotBiomass\<close>)\<close>

text \<open>
  A row of \<open>trees\<close> carries the measurements and the tree's id; \<open>row_id\<close> is the id as
  \<open>tree.id.toString()\<close> prints it. The query \<open>SELECT * FROM trees WHERE plot_id = $1
  ORDER BY id\<close> is the function \<open>trees_of\<close> from the plot id to its rows.
\<close>

record tree_row = TreeMeasurements +
  row_id :: string

record plot_totals =
  total_trees :: nat
  total_biomass_kg :: jsnum
  total_carbon_kg :: jsnum
  total_co2_equivalent_kg :: jsnum
  average_uncertainty_pct :: jsnum

record plot_estimation =
  trees :: "(string \<times> BiomassEstimate) list"
  totals :: plot_totals

text \<open>The local variables of the loop over the trees.\<close>

record loop_state =
  estimates :: "(string \<times> BiomassEstimate) list"
  totalBiomass :: jsnum
  totalCarbon :: jsnum
  totalCo2 :: jsnum
  totalUncertainty :: jsnum
  estimatedTrees :: nat

definition loop_init :: loop_state where
  "loop_init = \<lparr>estimates = [], totalBiomass = Num 0, totalCarbon = Num 0, totalCo2 = Num 0,
                 totalUncertainty = Num 0, estimatedTrees = 0\<rparr>"

text \<open>
  One iteration: the \<open>try\<close> block estimates the tree and adds it to the running sums; the
  \<open>catch\<close> block only logs, so a failing tree leaves the state as it was.
\<close>

definition process_tree ::
  "(real \<Rightarrow> real \<Rightarrow> jsnum) \<Rightarrow> species_table \<Rightarrow> tree_row \<Rightarrow> loop_state \<Rightarrow> loop_state" where
  "process_tree pw tbl tree st =
     (case estimateBiomass pw tbl
             \<lparr>height_meters = height_meters tree, dbh_cm = dbh_cm tree,
              canopy_cover_m2 = canopy_cover_m2 tree, species_code = species_code tree\<rparr> of
        Inr estimate \<Rightarrow>
          st\<lparr>estimates := estimates st @ [(row_id tree, estimate)],
             totalBiomass := fadd (totalBiomass st) (biomass_estimate_kg estimate),
             totalCarbon := fadd (totalCarbon st) (carbon_sequestration_kg estimate),
             totalCo2 := fadd (totalCo2 st) (co2_equivalent_kg estimate),
             totalUncertainty := fadd (totalUncertainty st) (uncertainty_pct estimate),
             estimatedTrees := estimatedTrees st + 1\<rparr>
      | Inl error \<Rightarrow> st)"

fun process_trees ::
  "(real \<Rightarrow> real \<Rightarrow> jsnum) \<Rightarrow> species_table \<Rightarrow> tree_row list \<Rightarrow> loop_state \<Rightarrow> loop_state" where
  "process_trees pw tbl [] st = st"
| "process_trees pw tbl (tree # rest) st =
     process_trees pw tbl rest (process_tree pw tbl tree st)"

definition estimatePlotBiomass ::
  "(real \<Rightarrow> real \<Rightarrow> jsnum) \<Rightarrow> species_table \<Rightarrow> (string \<Rightarrow> tree_row list) \<Rightarrow> string
     \<Rightarrow> plot_estimation" where
  "estimatePlotBiomass pw tbl trees_of plotId =
     (let st = process_trees pw tbl (trees_of plotId) loop_init;
          averageUncertainty =
            (if estimatedTrees st > 0
             then fdiv (totalUncertainty st) (Num (real (estimatedTrees st))) else Num 0)
      in \<lparr>trees = estimates st,
          totals = \<lparr>total_trees = estimatedTrees st,
                    total_biomass_kg = fdiv (Math_round (fmul (totalBiomass st) (Num 100))) (Num 100),
                    total_carbon_kg = fdiv (Math_round (fmul (totalCarbon st) (Num 100))) (Num 100),
                    total_co2_equivalent_kg =
                      fdiv (Math_round (fmul (totalCo2 st) (Num 100))) (Num 100),
                    average_uncertainty_pct =
                      fdiv (Math_round (fmul averageUncertainty (Num 10))) (Num 10)\<rparr>\<rparr>)"

text \<open>
  The \<open>totals\<close> object as it is returned: its keys, in the order of the object literal,
  each with its number.
\<close>

definition totals_object :: "plot_totals \<Rightarrow> (string \<times> jsnum) list" where
  "totals_object t =
     [(''total_trees'', Num (real (total_trees t))),
      (''total_biomass_kg'', total_biomass_kg t),
      (''total_carbon_kg'', total_carbon_kg t),
      (''total_co2_equivalent_kg'', total_co2_equivalent_kg t),
      (''average_uncertainty_pct'', average_uncertainty_pct t)]"

section \<open>Carbon credits (\<open>CarbonCreditService.calculateCredits\<close>)\<close>

definition CARBON_FRACTION :: jsnum where
  "CARBON_FRACTION = lit 0.47"

definition CO2_MOLECULAR_RATIO :: jsnum where
  "CO2_MOLECULAR_RATIO = lit 3.67"

record credit_figures =
  carbonStockKg :: jsnum
  carbonStockTons :: jsnum
  co2EquivalentKg :: jsnum
  co2EquivalentTons :: jsnum
  creditsGenerated :: jsnum

definition calculateCredits :: "jsnum \<Rightarrow> credit_figures" where
  "calculateCredits biomassKg =
     (let carbonStockKg = fmul biomassKg CARBON_FRACTION;
          carbonStockTons = fdiv carbonStockKg (Num 1000);
          co2EquivalentKg = fmul carbonStockKg CO2_MOLECULAR_RATIO;
          co2EquivalentTons = fdiv co2EquivalentKg (Num 1000);
          creditsGenerated = co2EquivalentTons
      in \<lparr>carbonStockKg = fdiv (Math_round (fmul carbonStockKg (Num 100))) (Num 100),
          carbonStockTons = fdiv (Math_round (fmul carbonStockTons (Num 1000))) (Num 1000),
          co2EquivalentKg = fdiv (Math_round (fmul co2EquivalentKg (Num 100))) (Num 100),
          co2EquivalentTons = fdiv (Math_round (fmul co2EquivalentTons (Num 1000))) (Num 1000),
          creditsGenerated = fdiv (Math_round (fmul creditsGenerated (Num 1000))) (Num 1000)\<rparr>)"

section \<open>Files, hashes and the database of the MRV export\<close>

text \<open>
  A file holds either text or the JSON document \<open>{ files: { path: digest, ... } }\<close> of
  \<open>checksums.json\<close>. The document is kept as the object that \<open>JSON.stringify\<close> wrote
  and \<open>JSON.parse\<close> reads back: an association list from file path to hex digest, in
  insertion order. The file system is a map from absolute paths to file contents,
  together with the set of directories.
\<close>

datatype file_content = Text string | ChecksumsDoc "(string \<times> string) list"

record filesystem =
  files :: "string \<Rightarrow> file_content option"
  dirs :: "string set"

datatype db_op = SelectPlot | SelectTrees | SelectRun | InsertPackage | UpdatePackage | SelectPackage

datatype export_error =
  PlotNotFound
| DbError db_op
| WriteError string
| HashError string

record plot_row =
  plot_id :: string
  plot_name :: string

record run_row =
  run_id :: string
  run_plotId :: string

record package_row =
  pkg_id :: string
  runId :: string
  schemaVersion :: string
  artifactsUri :: string
  checksum :: string
  ledgerTxId :: "string option"

text \<open>
  The tables the export and the verification read and write. \<open>run_rows\<close> is kept in the
  order of \<open>ORDER BY "createdAt" DESC\<close>.
\<close>

record database =
  plot_rows :: "plot_row list"
  run_rows :: "run_row list"
  packages :: "package_row list"

text \<open>The text of the four documents that the export serialises for a plot.\<close>

record artifact_docs =
  inputs_json :: string
  outputs_json :: string
  manifest_json :: string
  summary_md :: string

text \<open>
  What the process gets from outside: the working directory, the clock, SHA-256 (of Node's
  \<open>crypto\<close>) as a function from the hashed content to the hex digest, the serialised
  documents of a plot, the id the database gives to a new package row, and which file
  and database operations fail. The working directory is the same when the storage
  module is loaded and at every call, so that \<open>BASE\<close>, \<open>storage/...\<close> and
  \<open>path.join(process.cwd(), 'storage', ...)\<close> name the same place.
\<close>

record env =
  cwd :: string
  now_iso :: string
  now_ms :: string
  sha256 :: "file_content \<Rightarrow> string"
  render :: "string \<Rightarrow> artifact_docs"
  new_pkg_id :: string
  write_fails :: "string \<Rightarrow> bool"
  read_fails :: "string \<Rightarrow> bool"
  db_fails :: "db_op \<Rightarrow> bool"

text \<open>
  \<open>path.join\<close> and \<open>path.dirname\<close> on POSIX paths whose segments need no normalising;
  \<open>ancestors p\<close> lists what \<open>mkdirSync(p, { recursive: true })\<close> creates.
\<close>

definition path_join :: "string \<Rightarrow> string \<Rightarrow> string" where
  "path_join a b = a @ ''/'' @ b"

definition dirname :: "string \<Rightarrow> string" where
  "dirname p = rev (drop 1 (dropWhile (\<lambda>c. c \<noteq> CHR ''/'') (rev p)))"

definition ancestors :: "string \<Rightarrow> string list" where
  "ancestors p = [take i p. i \<leftarrow> [1..<length p], p ! i = CHR ''/''] @ [p]"

text \<open>\<open>Array.prototype.join\<close> on strings.\<close>

fun join_with :: "string \<Rightarrow> string list \<Rightarrow> string" where
  "join_with sep [] = []"
| "join_with sep [x] = x"
| "join_with sep (x # y # ys) = x @ sep @ join_with sep (y # ys)"

text \<open>\<open>s.replace(pat, '')\<close> with a string pattern: the first occurrence is removed.\<close>

fun remove_first :: "string \<Rightarrow> string \<Rightarrow> string" where
  "remove_first pat [] = []"
| "remove_first pat (c # cs) =
     (if starts_with (c # cs) pat then drop (length pat) (c # cs)
      else c # remove_first pat cs)"

text \<open>\<open>Object.keys\<close> of an object: each key once.\<close>

definition object_keys :: "(string \<times> string) list \<Rightarrow> string list" where
  "object_keys obj = remdups (map fst obj)"

subsection \<open>utils/storage and utils/hash\<close>

definition BASE :: "env \<Rightarrow> string" where
  "BASE e = path_join (cwd e) ''storage''"

definition existsSync :: "filesystem \<Rightarrow> string \<Rightarrow> bool" where
  "existsSync fs p = (p \<in> dirs fs \<or> files fs p \<noteq> None)"

definition mkdirSync_recursive :: "env \<Rightarrow> filesystem \<Rightarrow> string \<Rightarrow> export_error + filesystem" where
  "mkdirSync_recursive e fs p =
     (if write_fails e p then Inl (WriteError p)
      else Inr (fs\<lparr>dirs := dirs fs \<union> set (ancestors p)\<rparr>))"

definition ensureStorage :: "env \<Rightarrow> filesystem \<Rightarrow> export_error + filesystem" where
  "ensureStorage e fs =
     (if \<not> existsSync fs (BASE e) then mkdirSync_recursive e fs (BASE e) else Inr fs)"

text \<open>
  \<open>writeFileRel\<close> returns the file URI, or the error that was thrown, and the file system
  as the call left it.
\<close>

definition writeFileRel ::
  "env \<Rightarrow> filesystem \<Rightarrow> string \<Rightarrow> file_content \<Rightarrow> (export_error + string) \<times> filesystem" where
  "writeFileRel e fs relPath data =
     (case ensureStorage e fs of
        Inl err \<Rightarrow> (Inl err, fs)
      | Inr fs1 \<Rightarrow>
          (let full = path_join (BASE e) relPath in
           case mkdirSync_recursive e fs1 (dirname full) of
             Inl err \<Rightarrow> (Inl err, fs1)
           | Inr fs2 \<Rightarrow>
               if write_fails e full then (Inl (WriteError full), fs2)
               else (Inr (''file://'' @ full), fs2\<lparr>files := (files fs2)(full \<mapsto> data)\<rparr>)))"

definition sha256OfString :: "env \<Rightarrow> string \<Rightarrow> string" where
  "sha256OfString e s = sha256 e (Text s)"

text \<open>
  \<open>sha256OfFile\<close> on an absolute path: a missing file, a directory and a failing read
  all end in the error \<open>Failed to hash file\<close>.
\<close>

definition sha256OfFile :: "env \<Rightarrow> filesystem \<Rightarrow> string \<Rightarrow> export_error + string" where
  "sha256OfFile e fs p =
     (if \<not> existsSync fs p then Inl (HashError p)
      else if read_fails e p then Inl (HashError p)
      else case files fs p of
             None \<Rightarrow> Inl (HashError p)
           | Some buf \<Rightarrow> Inr (sha256 e buf))"

subsection \<open>services/mrvExport: \<open>exportMRVPackage\<close>\<close>

record export_result =
  res_pkgId :: string
  res_topHash :: string
  res_artifactsUri :: string
  res_relBase :: string

text \<open>The writes of the artifacts, one after the other; the first that throws ends them.\<close>

fun write_files ::
  "env \<Rightarrow> filesystem \<Rightarrow> (string \<times> file_content) list \<Rightarrow> (export_error + unit) \<times> filesystem" where
  "write_files e fs [] = (Inr (), fs)"
| "write_files e fs ((relPath, data) # rest) =
     (case writeFileRel e fs relPath data of
        (Inl err, fs') \<Rightarrow> (Inl err, fs')
      | (Inr uri, fs') \<Rightarrow> write_files e fs' rest)"

text \<open>
  The object literal of \<open>checksums.files\<close>: each key with the digest of
  \<open>storage/<key>\<close>, a path relative to the working directory. The first
  \<open>sha256OfFile\<close> that throws ends the export.
\<close>

fun hash_entries ::
  "env \<Rightarrow> filesystem \<Rightarrow> string list \<Rightarrow> export_error + (string \<times> string) list" where
  "hash_entries e fs [] = Inr []"
| "hash_entries e fs (k # ks) =
     (case sha256OfFile e fs (path_join (cwd e) (''storage/'' @ k)) of
        Inl err \<Rightarrow> Inl err
      | Inr digest \<Rightarrow>
          (case hash_entries e fs ks of
             Inl err \<Rightarrow> Inl err
           | Inr rest \<Rightarrow> Inr ((k, digest) # rest)))"

text \<open>\<open>obj[k]\<close>: the value last assigned to the key.\<close>

definition object_get :: "(string \<times> string) list \<Rightarrow> string \<Rightarrow> string" where
  "object_get obj k = (case map_of (rev obj) k of Some v \<Rightarrow> v | None \<Rightarrow> [])"

text \<open>The top-level hash: the digests in the sorted order of their keys, joined by a bar.\<close>

definition top_level_hash :: "env \<Rightarrow> (string \<times> string) list \<Rightarrow> string" where
  "top_level_hash e checksums_files =
     (let concat = join_with ''|''
                     (map (\<lambda>k. object_get checksums_files k) (sort (object_keys checksums_files)))
      in sha256OfString e concat)"

text \<open>
  The folder of a package, relative to the storage root: \<open>packages/mrv_pkg_<plotId>_<timestamp>\<close>,
  where the timestamp is the ISO time without \<open>:\<close>, \<open>.\<close> and \<open>-\<close>, cut to 15 characters,
  followed by \<open>Z\<close>.
\<close>

definition package_relBase :: "env \<Rightarrow> string \<Rightarrow> string" where
  "package_relBase e plotId =
     (let timestamp = take 15 (filter (\<lambda>c. c \<notin> set '':.-'') (now_iso e)) @ ''Z'';
          folder = ''mrv_pkg_'' @ plotId @ ''_'' @ timestamp
      in path_join ''packages'' folder)"

definition pInputs :: "string \<Rightarrow> string" where
  "pInputs relBase = path_join (path_join relBase ''inputs'') ''trees.json''"

definition pOutputs :: "string \<Rightarrow> string" where
  "pOutputs relBase = path_join (path_join relBase ''outputs'') ''estimates.json''"

definition pManifest :: "string \<Rightarrow> string" where
  "pManifest relBase = path_join relBase ''manifest.json''"

definition pReport :: "string \<Rightarrow> string" where
  "pReport relBase = path_join (path_join relBase ''reports'') ''summary.md''"

definition pChecks :: "string \<Rightarrow> string" where
  "pChecks relBase = path_join relBase ''checksums.json''"

text \<open>
  The middle of \<open>exportMRVPackage\<close>: write the four artifacts, hash them into the checksums
  object, write \<open>checksums.json\<close>. The result is the checksums object, or the error thrown,
  and the file system as it was left.
\<close>

definition write_package ::
  "env \<Rightarrow> filesystem \<Rightarrow> string \<Rightarrow> artifact_docs
     \<Rightarrow> (export_error + (string \<times> string) list) \<times> filesystem" where
  "write_package e fs0 relBase docs =
     (case write_files e fs0
             [(pInputs relBase, Text (inputs_json docs)),
              (pOutputs relBase, Text (outputs_json docs)),
              (pManifest relBase, Text (manifest_json docs)),
              (pReport relBase, Text (summary_md docs))] of
        (Inl err, fs1) \<Rightarrow> (Inl err, fs1)
      | (Inr u, fs1) \<Rightarrow>
          (case hash_entries e fs1
                  [pInputs relBase, pOutputs relBase, pManifest relBase, pReport relBase] of
             Inl err \<Rightarrow> (Inl err, fs1)
           | Inr checksums_files \<Rightarrow>
               (case writeFileRel e fs1 (pChecks relBase) (ChecksumsDoc checksums_files) of
                  (Inl err, fs2) \<Rightarrow> (Inl err, fs2)
                | (Inr uri, fs2) \<Rightarrow> (Inr checksums_files, fs2))))"

text \<open>
  The end of \<open>exportMRVPackage\<close>: the latest run of the plot is looked up and the package
  row is inserted. The insert fails when the database says so, and when the id of the new
  row is taken (\<open>id\<close> is the primary key).
\<close>

definition persist_package ::
  "env \<Rightarrow> database \<Rightarrow> plot_row \<Rightarrow> string \<Rightarrow> string \<Rightarrow> string
     \<Rightarrow> (export_error + export_result) \<times> database" where
  "persist_package e db plot plotId relBase topHash =
     (if db_fails e SelectRun then (Inl (DbError SelectRun), db)
      else
      (let row = \<lparr>pkg_id = new_pkg_id e,
                  runId = (case find (\<lambda>r. run_plotId r = plotId) (run_rows db) of
                             Some run \<Rightarrow> run_id run
                           | None \<Rightarrow> plot_id plot),
                  schemaVersion = ''1.0'',
                  artifactsUri = ''file://'' @ path_join (path_join (cwd e) ''storage'') relBase,
                  checksum = topHash,
                  ledgerTxId = None\<rparr>
       in
       if db_fails e InsertPackage \<or> new_pkg_id e \<in> set (map pkg_id (packages db))
       then (Inl (DbError InsertPackage), db)
       else (Inr \<lparr>res_pkgId = pkg_id row, res_topHash = topHash,
                  res_artifactsUri = artifactsUri row, res_relBase = relBase\<rparr>,
             db\<lparr>packages := packages db @ [row]\<rparr>)))"

definition exportMRVPackage ::
  "env \<Rightarrow> database \<Rightarrow> filesystem \<Rightarrow> string
     \<Rightarrow> (export_error + export_result) \<times> database \<times> filesystem" where
  "exportMRVPackage e db fs plotId =
     (case ensureStorage e fs of
        Inl err \<Rightarrow> (Inl err, db, fs)
      | Inr fs0 \<Rightarrow>
          if db_fails e SelectPlot then (Inl (DbError SelectPlot), db, fs0)
          else case find (\<lambda>p. plot_id p = plotId) (plot_rows db) of
            None \<Rightarrow> (Inl PlotNotFound, db, fs0)
          | Some plot \<Rightarrow>
              if db_fails e SelectTrees then (Inl (DbError SelectTrees), db, fs0)
              else
              (let relBase = package_relBase e plotId in
               case write_package e fs0 relBase (render e plotId) of
                 (Inl err, fs2) \<Rightarrow> (Inl err, db, fs2)
               | (Inr checksums_files, fs2) \<Rightarrow>
                   (case persist_package e db plot plotId relBase
                           (top_level_hash e checksums_files) of
                      (Inl err, db') \<Rightarrow> (Inl err, db', fs2)
                    | (Inr r, db') \<Rightarrow> (Inr r, db', fs2))))"

subsection \<open>services/ledger and the two routes\<close>

definition anchorHash ::
  "env \<Rightarrow> database \<Rightarrow> string \<Rightarrow> string \<Rightarrow> export_error + (string \<times> database)" where
  "anchorHash e db pkgId hashHex =
     (let txId = ''sim-'' @ now_ms e @ ''-'' @ take 10 hashHex in
      if db_fails e UpdatePackage then Inl (DbError UpdatePackage)
      else Inr (txId,
                db\<lparr>packages := map (\<lambda>r. if pkg_id r = pkgId then r\<lparr>ledgerTxId := Some txId\<rparr> else r)
                                   (packages db)\<rparr>))"

record export_response =
  resp_pkgId :: string
  resp_hash :: string
  resp_artifactsUri :: string
  resp_ledgerTxId :: string

text \<open>
  \<open>POST /plots/:plotId/mrv/export\<close>. The handler has one \<open>catch\<close>: whatever the export
  or the anchoring throws is answered with status 500 and the error's message.
\<close>

definition post_export ::
  "env \<Rightarrow> database \<Rightarrow> filesystem \<Rightarrow> string
     \<Rightarrow> ((nat \<times> export_error) + export_response) \<times> database \<times> filesystem" where
  "post_export e db fs plotId =
     (case exportMRVPackage e db fs plotId of
        (Inl err, db', fs') \<Rightarrow> (Inl (500, err), db', fs')
      | (Inr r, db', fs') \<Rightarrow>
          (case anchorHash e db' (res_pkgId r) (res_topHash r) of
             Inl err \<Rightarrow> (Inl (500, err), db', fs')
           | Inr (txId, db'') \<Rightarrow>
               (Inr \<lparr>resp_pkgId = res_pkgId r, resp_hash = res_topHash r,
                     resp_artifactsUri = res_artifactsUri r, resp_ledgerTxId = txId\<rparr>,
                db'', fs')))"

datatype verify_error =
  PackageNotFound
| PackageFilesNotFound
| ChecksumsFileNotFound
| VerifyFailed

record verify_response =
  v_pkgId :: string
  storedChecksum :: string
  recomputedChecksum :: string
  matches :: bool
  v_ledgerTxId :: "string option"

text \<open>\<open>fileKeys.map(k => sha256OfFile(...))\<close>: the digests in order, or the first error.\<close>

fun hash_all :: "env \<Rightarrow> filesystem \<Rightarrow> string list \<Rightarrow> export_error + string list" where
  "hash_all e fs [] = Inr []"
| "hash_all e fs (p # ps) =
     (case sha256OfFile e fs p of
        Inl err \<Rightarrow> Inl err
      | Inr digest \<Rightarrow>
          (case hash_all e fs ps of
             Inl err \<Rightarrow> Inl err
           | Inr rest \<Rightarrow> Inr (digest # rest)))"

text \<open>
  \<open>GET /mrv/:pkgId/verify\<close>. Three early returns answer 404; an error thrown by the
  query, by reading or parsing \<open>checksums.json\<close> or by hashing a file is answered with
  status 500.
\<close>

definition get_verify ::
  "env \<Rightarrow> database \<Rightarrow> filesystem \<Rightarrow> string \<Rightarrow> (nat \<times> verify_error) + verify_response" where
  "get_verify e db fs pkgId =
     (if db_fails e SelectPackage then Inl (500, VerifyFailed)
      else case find (\<lambda>r. pkg_id r = pkgId) (packages db) of
        None \<Rightarrow> Inl (404, PackageNotFound)
      | Some pkg \<Rightarrow>
     (let folder = remove_first ''file://'' (artifactsUri pkg) in
      if \<not> existsSync fs folder then Inl (404, PackageFilesNotFound)
      else
      (let checksumPath = path_join folder ''checksums.json'' in
       if \<not> existsSync fs checksumPath then Inl (404, ChecksumsFileNotFound)
       else if read_fails e checksumPath then Inl (500, VerifyFailed)
       else case files fs checksumPath of
         Some (ChecksumsDoc checksums_files) \<Rightarrow>
           (let fileKeys = sort (object_keys checksums_files) in
            case hash_all e fs
                   (map (\<lambda>k. path_join (path_join (cwd e) ''storage'') k) fileKeys) of
              Inl err \<Rightarrow> Inl (500, VerifyFailed)
            | Inr digests \<Rightarrow>
                (let recomputed = sha256OfString e (join_with ''|'' digests) in
                 Inr \<lparr>v_pkgId = pkgId,
                      storedChecksum = checksum pkg,
                      recomputedChecksum = recomputed,
                      matches = (checksum pkg = recomputed),
                      v_ledgerTxId = ledgerTxId pkg\<rparr>))
       | Some (Text t) \<Rightarrow> Inl (500, VerifyFailed)
       | None \<Rightarrow> Inl (500, VerifyFailed))))"

section \<open>The statements of the specification\<close>

text \<open>
  The definitions of this section follow the wording of the specification, not the code;
  the theorems below compare them with the definitions above. Where the specification
  writes a formula, the formula is read in the arithmetic of doubles, operation by
  operation from left to right.
\<close>

datatype method_kind = FullAllometric | CrownEstimated | HeightOnly | CanopyOnly

text \<open>A measurement is given and greater than zero.\<close>

definition given_gt0 :: "jsnum option \<Rightarrow> bool" where
  "given_gt0 v = (case v of None \<Rightarrow> False | Some x \<Rightarrow> gt0 x)"

text \<open>The priority ladder of the four methods.\<close>

definition spec_ladder :: "TreeMeasurements \<Rightarrow> method_kind option" where
  "spec_ladder m =
     (if given_gt0 (dbh_cm m) \<and> given_gt0 (height_meters m) then Some FullAllometric
      else if given_gt0 (height_meters m) \<and> given_gt0 (canopy_cover_m2 m) then Some CrownEstimated
      else if given_gt0 (height_meters m) then Some HeightOnly
      else if given_gt0 (canopy_cover_m2 m) then Some CanopyOnly
      else None)"

text \<open>The label under which each method reports itself.\<close>

fun spec_label :: "species_table \<Rightarrow> TreeMeasurements \<Rightarrow> method_kind \<Rightarrow> string" where
  "spec_label tbl m FullAllometric =
     (case resolve_species tbl m of
        Some s \<Rightarrow> ''allometric_species_'' @ the (species_code m)
      | None \<Rightarrow> ''allometric_generic'')"
| "spec_label tbl m CrownEstimated = ''allometric_crown_estimated''"
| "spec_label tbl m HeightOnly = ''height_only_estimation''"
| "spec_label tbl m CanopyOnly = ''crown_area_estimation''"

text \<open>
  Rounding a number to \<open>n\<close> decimal places in the arithmetic of doubles: scale by
  \<open>10\<^sup>n\<close>, round to the nearest integer, divide by \<open>10\<^sup>n\<close>.
\<close>

definition spec_round :: "nat \<Rightarrow> jsnum \<Rightarrow> jsnum" where
  "spec_round n x = fdiv (Math_round (fmul x (Num (10 ^ n)))) (Num (10 ^ n))"

text \<open>Rounding a real number to \<open>n\<close> decimal places exactly, halves upwards.\<close>

definition exact_round :: "nat \<Rightarrow> real \<Rightarrow> real" where
  "exact_round n x = of_int \<lfloor>x * 10 ^ n + 1 / 2\<rfloor> / 10 ^ n"

text \<open>The full allometric equation \<open>a \<times> (\<rho> \<times> DBH_m\<^sup>2 \<times> height)^b\<close>, with the DBH in cm.\<close>

definition spec_full_allometric ::
  "(real \<Rightarrow> real \<Rightarrow> jsnum) \<Rightarrow> jsnum \<Rightarrow> jsnum \<Rightarrow> jsnum \<Rightarrow> jsnum \<Rightarrow> jsnum \<Rightarrow> jsnum" where
  "spec_full_allometric pw a \<rho> b dbh h =
     fmul a (Math_pow pw (fmul (fmul \<rho> (Math_pow pw (fdiv dbh (Num 100)) (Num 2))) h) b)"

text \<open>The coefficients \<open>(a, \<rho>, b)\<close>: those of the species row, or the defaults.\<close>

definition spec_coefficients :: "SpeciesData option \<Rightarrow> jsnum \<times> jsnum \<times> jsnum" where
  "spec_coefficients sp =
     (case sp of
        None \<Rightarrow> (lit 0.0673, lit 0.6, lit 0.976)
      | Some s \<Rightarrow> (allometric_a s, wood_density_kg_m3 s, allometric_b s))"

text \<open>
  No species row resolved, or one whose wood density, coefficients and uncertainty are
  numbers other than zero (and other than \<open>NaN\<close>).
\<close>

definition nonzero_row :: "SpeciesData option \<Rightarrow> bool" where
  "nonzero_row sp =
     (case sp of
        None \<Rightarrow> True
      | Some s \<Rightarrow> truthy (wood_density_kg_m3 s) \<and> truthy (allometric_a s)
                  \<and> truthy (allometric_b s) \<and> truthy (species_uncertainty_pct s))"

definition estimate_figures :: "BiomassEstimate \<Rightarrow> jsnum \<times> jsnum \<times> jsnum \<times> jsnum" where
  "estimate_figures e =
     (biomass_estimate_kg e, carbon_sequestration_kg e, co2_equivalent_kg e, confidence_pct e)"

text \<open>
  Biomass, carbon, CO2e and confidence of the full allometric method, with the biomass
  clamped to at least 0.1 kg before carbon and CO2e are derived from it.
\<close>

definition spec_full_allometric_result ::
  "(real \<Rightarrow> real \<Rightarrow> jsnum) \<Rightarrow> SpeciesData option \<Rightarrow> jsnum \<Rightarrow> jsnum
     \<Rightarrow> jsnum \<times> jsnum \<times> jsnum \<times> jsnum" where
  "spec_full_allometric_result pw sp dbh h =
     (case spec_coefficients sp of (a, \<rho>, b) \<Rightarrow>
        (let biomass = Math_max (spec_full_allometric pw a \<rho> b dbh h) (lit 0.1);
             carbon = fmul biomass (lit 0.47);
             co2e = fmul carbon (lit 3.67)
         in (spec_round 2 biomass, spec_round 2 carbon, spec_round 2 co2e,
             (case sp of
                Some s \<Rightarrow> fsub (Num 100) (species_uncertainty_pct s)
              | None \<Rightarrow> Num 75))))"

text \<open>The base uncertainty of a method; the flag says whether species data resolved.\<close>

fun spec_base_uncertainty :: "method_kind \<Rightarrow> bool \<Rightarrow> jsnum" where
  "spec_base_uncertainty FullAllometric True = Num 15"
| "spec_base_uncertainty FullAllometric False = Num 20"
| "spec_base_uncertainty CrownEstimated known = Num 25"
| "spec_base_uncertainty HeightOnly known = Num 35"
| "spec_base_uncertainty CanopyOnly known = Num 40"

text \<open>
  The reported uncertainty: root-sum-of-squares of the base and the species uncertainty
  when species data resolved, else the base alone; rounded to one decimal place.
\<close>

definition spec_uncertainty ::
  "(real \<Rightarrow> real \<Rightarrow> jsnum) \<Rightarrow> species_table \<Rightarrow> TreeMeasurements \<Rightarrow> method_kind \<Rightarrow> jsnum" where
  "spec_uncertainty pw tbl m k =
     (case resolve_species tbl m of
        Some s \<Rightarrow>
          spec_round 1
            (Math_sqrt (fadd (Math_pow pw (spec_base_uncertainty k True) (Num 2))
                          (Math_pow pw (species_uncertainty_pct s) (Num 2))))
      | None \<Rightarrow> spec_round 1 (spec_base_uncertainty k False))"

text \<open>The trees of a plot that produce an estimate, each with its estimate, in order.\<close>

definition measurements_of :: "tree_row \<Rightarrow> TreeMeasurements" where
  "measurements_of t =
     \<lparr>height_meters = height_meters t, dbh_cm = dbh_cm t,
      canopy_cover_m2 = canopy_cover_m2 t, species_code = species_code t\<rparr>"

definition successes ::
  "(real \<Rightarrow> real \<Rightarrow> jsnum) \<Rightarrow> species_table \<Rightarrow> tree_row list
     \<Rightarrow> (string \<times> BiomassEstimate) list" where
  "successes pw tbl rows =
     List.map_filter
       (\<lambda>t. case estimateBiomass pw tbl (measurements_of t) of
               Inl err \<Rightarrow> None
             | Inr e \<Rightarrow> Some (row_id t, e))
       rows"

text \<open>The sum of a list of numbers, added one after the other to 0, and their mean.\<close>

definition js_sum :: "jsnum list \<Rightarrow> jsnum" where
  "js_sum xs = foldl fadd (Num 0) xs"

definition spec_mean :: "jsnum list \<Rightarrow> jsnum" where
  "spec_mean xs = (if xs = [] then Num 0 else fdiv (js_sum xs) (Num (real (length xs))))"

definition sum_of ::
  "(BiomassEstimate \<Rightarrow> jsnum) \<Rightarrow> (string \<times> BiomassEstimate) list \<Rightarrow> jsnum" where
  "sum_of f es = js_sum (map (\<lambda>p. f (snd p)) es)"

definition uncertainties_of :: "(string \<times> BiomassEstimate) list \<Rightarrow> jsnum list" where
  "uncertainties_of es = map (\<lambda>p. uncertainty_pct (snd p)) es"

text \<open>
  The verification can read what it needs: the query for the package row does not fail,
  and neither does reading \<open>checksums.json\<close> in the folder of the exported package.
\<close>

definition verify_can_read :: "env \<Rightarrow> export_result \<Rightarrow> bool" where
  "verify_can_read e r =
     (\<not> db_fails e SelectPackage
      \<and> \<not> read_fails e
            (path_join (remove_first ''file://'' (res_artifactsUri r)) ''checksums.json''))"

text \<open>The folder of a stored package and its \<open>checksums.json\<close>, as the verification finds them.\<close>

definition package_folder :: "package_row \<Rightarrow> string" where
  "package_folder pkg = remove_first ''file://'' (artifactsUri pkg)"

definition checksums_path :: "package_row \<Rightarrow> string" where
  "checksums_path pkg = path_join (package_folder pkg) ''checksums.json''"

text \<open>Two disks hold the same content, or both nothing, at the file of each key.\<close>

definition same_artifacts :: "env \<Rightarrow> filesystem \<Rightarrow> filesystem \<Rightarrow> string list \<Rightarrow> bool" where
  "same_artifacts e fs1 fs2 keys =
     list_all (\<lambda>k. files fs1 (path_join (path_join (cwd e) ''storage'') k) =
                    files fs2 (path_join (path_join (cwd e) ''storage'') k)) keys"

text \<open>A status of the 4xx class.\<close>

definition is_client_error :: "nat \<Rightarrow> bool" where
  "is_client_error status = (400 \<le> status \<and> status < 500)"

text \<open>
  The aggregate hash in the words of the specification, computed from a disk: sort the
  keys, hash the file of each key as it is on the disk, join the digests by a bar, and
  hash the joined text. There is none when a file is missing or cannot be read.
\<close>

fun file_digests :: "env \<Rightarrow> filesystem \<Rightarrow> string list \<Rightarrow> string list option" where
  "file_digests e fs [] = Some []"
| "file_digests e fs (k # ks) =
     (case files fs (path_join (path_join (cwd e) ''storage'') k) of
        None \<Rightarrow> None
      | Some buf \<Rightarrow>
          if read_fails e (path_join (path_join (cwd e) ''storage'') k) then None
          else map_option (\<lambda>ds. sha256 e buf # ds) (file_digests e fs ks))"

definition spec_aggregate :: "env \<Rightarrow> filesystem \<Rightarrow> string list \<Rightarrow> string option" where
  "spec_aggregate e fs keys =
     map_option (\<lambda>ds. sha256 e (Text (join_with ''|'' ds))) (file_digests e fs (sort keys))"

text \<open>The keys of the four artifacts of a package.\<close>

definition artifact_keys :: "string \<Rightarrow> string list" where
  "artifact_keys relBase = [pInputs relBase, pOutputs relBase, pManifest relBase, pReport relBase]"

text \<open>
  A later disk still holds the folder of the exported package and the \<open>checksums.json\<close>
  that the export wrote; the artifacts themselves may have changed or gone.
\<close>

definition still_packaged :: "export_result \<Rightarrow> filesystem \<Rightarrow> filesystem \<Rightarrow> bool" where
  "still_packaged r fs' fs2 =
     (existsSync fs2 (remove_first ''file://'' (res_artifactsUri r))
      \<and> files fs2 (path_join (remove_first ''file://'' (res_artifactsUri r)) ''checksums.json'') =
          files fs' (path_join (remove_first ''file://'' (res_artifactsUri r)) ''checksums.json''))"

text \<open>What the verification of an exported package answers on such a disk.\<close>

definition spec_verify :: "env \<Rightarrow> export_result \<Rightarrow> filesystem \<Rightarrow> (nat \<times> verify_error) + verify_response" where
  "spec_verify e r fs2 =
     (case spec_aggregate e fs2 (artifact_keys (res_relBase r)) of
        None \<Rightarrow> Inl (500, VerifyFailed)
      | Some h \<Rightarrow>
          Inr \<lparr>v_pkgId = res_pkgId r, storedChecksum = res_topHash r, recomputedChecksum = h,
               matches = (res_topHash r = h), v_ledgerTxId = None\<rparr>)"

section \<open>Example inputs\<close>

text \<open>
  A species row whose wood density and coefficients are 1, with an uncertainty of 20
  percent; a tree of that species with 100 cm DBH and 4.5 m height, and a sapling of it
  with 1 cm DBH and 1 m height.
\<close>

definition unit_row :: SpeciesData where
  "unit_row = \<lparr>species_id = 7, species_key = ''UNIT'', common_name = ''Unit'',
               scientific_name = ''Arbor simplex'', wood_density_kg_m3 = Num 1,
               allometric_a = Num 1, allometric_b = Num 1, species_uncertainty_pct = Num 20,
               equation_source = ''none''\<rparr>"

definition tbl_unit :: species_table where
  "tbl_unit = [''UNIT'' \<mapsto> unit_row]"

definition m_unit :: TreeMeasurements where
  "m_unit = \<lparr>height_meters = Some (Num 4.5), dbh_cm = Some (Num 100), canopy_cover_m2 = None,
             species_code = Some ''unit''\<rparr>"

definition m_sapling :: TreeMeasurements where
  "m_sapling = \<lparr>height_meters = Some (Num 1), dbh_cm = Some (Num 1), canopy_cover_m2 = None,
                species_code = Some ''unit''\<rparr>"

text \<open>The scenario of the specification: height 5.2 m, DBH 25.4 cm, species unknown.\<close>

definition m_scenario :: TreeMeasurements where
  "m_scenario = \<lparr>height_meters = Some (lit 5.2), dbh_cm = Some (lit 25.4),
                 canopy_cover_m2 = None, species_code = None\<rparr>"

text \<open>
  A species row whose uncertainty is zero, one whose wood density has the wrong sign, and
  a tree of that species.
\<close>

definition teak_zero :: SpeciesData where
  "teak_zero = \<lparr>species_id = 1, species_key = ''TEAK'', common_name = ''Teak'',
                scientific_name = ''Tectona grandis'', wood_density_kg_m3 = lit 0.55,
                allometric_a = lit 0.0673, allometric_b = lit 0.976,
                species_uncertainty_pct = Num 0, equation_source = ''Chave et al. 2014''\<rparr>"

definition tbl_zero :: species_table where
  "tbl_zero = [''TEAK'' \<mapsto> teak_zero]"

definition teak_negative :: SpeciesData where
  "teak_negative = \<lparr>species_id = 1, species_key = ''TEAK'', common_name = ''Teak'',
                    scientific_name = ''Tectona grandis'', wood_density_kg_m3 = lit (- 0.55),
                    allometric_a = lit 0.0673, allometric_b = lit 0.976,
                    species_uncertainty_pct = Num 20, equation_source = ''Chave et al. 2014''\<rparr>"

definition tbl_negative :: species_table where
  "tbl_negative = [''TEAK'' \<mapsto> teak_negative]"

definition m_teak :: TreeMeasurements where
  "m_teak = \<lparr>height_meters = Some (Num 5), dbh_cm = Some (Num 10), canopy_cover_m2 = None,
             species_code = Some ''teak''\<rparr>"

text \<open>A tree without species whose DBH is \<open>1e-200\<close> cm and whose height is infinite.\<close>

definition m_extreme :: TreeMeasurements where
  "m_extreme = \<lparr>height_meters = Some PosInf, dbh_cm = Some (lit (1 / 10 ^ 200)),
                canopy_cover_m2 = None, species_code = None\<rparr>"

text \<open>Tree rows: canopy only (10 and 20 square metres), height only (1 m), nothing.\<close>

definition tree_canopy10 :: tree_row where
  "tree_canopy10 = \<lparr>height_meters = None, dbh_cm = None, canopy_cover_m2 = Some (Num 10),
                    species_code = None, row_id = ''1''\<rparr>"

definition tree_bare :: tree_row where
  "tree_bare = \<lparr>height_meters = None, dbh_cm = None, canopy_cover_m2 = None,
                species_code = None, row_id = ''2''\<rparr>"

definition tree_canopy20 :: tree_row where
  "tree_canopy20 = \<lparr>height_meters = None, dbh_cm = None, canopy_cover_m2 = Some (Num 20),
                    species_code = None, row_id = ''3''\<rparr>"

definition tree_height1 :: tree_row where
  "tree_height1 = \<lparr>height_meters = Some (Num 1), dbh_cm = None, canopy_cover_m2 = None,
                   species_code = None, row_id = ''4''\<rparr>"

definition plot_partial :: "string \<Rightarrow> tree_row list" where
  "plot_partial plotId = [tree_canopy10, tree_bare, tree_canopy20]"

definition plot_thirds :: "string \<Rightarrow> tree_row list" where
  "plot_thirds plotId = [tree_height1, tree_canopy10, tree_canopy20]"

definition plot_single :: "string \<Rightarrow> tree_row list" where
  "plot_single plotId = [tree_canopy10]"

text \<open>
  An environment in which nothing fails, with a stand-in for SHA-256 that keeps the hashed
  text readable; a database with one plot and no package; an empty disk.
\<close>

definition demo_sha :: "file_content \<Rightarrow> string" where
  "demo_sha c = (case c of Text s \<Rightarrow> ''#'' @ s | ChecksumsDoc obj \<Rightarrow> ''#checksums'')"

definition demo_docs :: "string \<Rightarrow> artifact_docs" where
  "demo_docs plotId = \<lparr>inputs_json = ''in'', outputs_json = ''out'', manifest_json = ''man'',
                        summary_md = ''sum''\<rparr>"

definition never :: "'a \<Rightarrow> bool" where
  "never x = False"

definition demo_env :: env where
  "demo_env = \<lparr>cwd = ''/app'', now_iso = ''2025-08-23T05:31:58.123Z'', now_ms = ''1755927118123'',
           sha256 = demo_sha, render = demo_docs, new_pkg_id = ''pkg1'',
           write_fails = never, read_fails = never, db_fails = never\<rparr>"

definition demo_db :: database where
  "demo_db = \<lparr>plot_rows = [\<lparr>plot_id = ''p1'', plot_name = ''North field''\<rparr>], run_rows = [],
          packages = []\<rparr>"

definition empty_disk :: filesystem where
  "empty_disk = \<lparr>files = Map.empty, dirs = {}\<rparr>"

definition demo_result :: export_result where
  "demo_result = \<lparr>res_pkgId = ''pkg1'', res_topHash = ''##in|#man|#out|#sum'',
                  res_artifactsUri = ''file:///app/storage/packages/mrv_pkg_p1_20250823T053158Z'',
                  res_relBase = ''packages/mrv_pkg_p1_20250823T053158Z''\<rparr>"

text \<open>
  A database with one package, and two disks that hold the same two artifact files and
  differ only in \<open>checksums.json\<close>: the same keys, in another order and with other digests.
\<close>

definition pkg_db :: database where
  "pkg_db = \<lparr>plot_rows = [], run_rows = [],
             packages = [\<lparr>pkg_id = ''pkg7'', runId = ''run1'', schemaVersion = ''1.0'',
                          artifactsUri = ''file:///app/storage/packages/x'',
                          checksum = ''##a|#b'', ledgerTxId = None\<rparr>]\<rparr>"

definition honest_doc :: "(string \<times> string) list" where
  "honest_doc = [(''packages/x/a.txt'', ''#a''), (''packages/x/b.txt'', ''#b'')]"

definition forged_doc :: "(string \<times> string) list" where
  "forged_doc = [(''packages/x/b.txt'', ''forged''), (''packages/x/a.txt'', ''0000'')]"

definition disk_with :: "(string \<times> string) list \<Rightarrow> filesystem" where
  "disk_with doc =
     \<lparr>files = [''/app/storage/packages/x/a.txt'' \<mapsto> Text ''a'',
               ''/app/storage/packages/x/b.txt'' \<mapsto> Text ''b'',
               ''/app/storage/packages/x/checksums.json'' \<mapsto> ChecksumsDoc doc],
      dirs = {''/app/storage'', ''/app/storage/packages'', ''/app/storage/packages/x''}\<rparr>"

text \<open>A disk on which the inputs document of the demonstration package has been altered.\<close>

definition tampered :: "filesystem \<Rightarrow> filesystem" where
  "tampered fs =
     fs\<lparr>files := (files fs)
            (''/app/storage/packages/mrv_pkg_p1_20250823T053158Z/inputs/trees.json'' \<mapsto> Text ''IN'')\<rparr>"

section \<open>Rounding to the nearest double\<close>

text \<open>
  A real number \<open>x\<close> whose magnitude lies between \<open>2^(k+52)\<close> and \<open>2^(k+53)\<close> rounds to
  \<open>n \<times> 2^k\<close>, where \<open>n\<close> is the integer nearest to \<open>x / 2^k\<close>, the even one of two that
  are equally near.
\<close>

lemma two_powr_int: "2 powr real_of_int j = (2::real) powi j"
  by (rule powr_real_of_int') simp_all

lemma two_powi_shift: "(2::real) powi (k + int m) = 2 powi k * 2 ^ m"
  by (simp add: power_int_add)

lemma ulp_normal:
  assumes "2 powi k * 2 ^ 52 \<le> \<bar>x\<bar>" and "\<bar>x\<bar> < 2 powi k * 2 ^ 53" and "- 1074 \<le> k"
  shows "ulp x = 2 powi k"
proof -
  have "(0::real) < 2 powi k * 2 ^ 52" by simp
  with assms(1) have pos: "0 < \<bar>x\<bar>" by linarith
  have a: "2 powr real_of_int (k + 52) \<le> \<bar>x\<bar>"
    using assms(1) two_powi_shift [of k 52] by (simp only: two_powr_int) simp
  have "real_of_int (k + 52) + 1 = real_of_int (k + 53)" by simp
  then have b: "\<bar>x\<bar> < 2 powr (real_of_int (k + 52) + 1)"
    using assms(2) two_powi_shift [of k 53] by (simp only: two_powr_int) simp
  have "\<lfloor>log 2 \<bar>x\<bar>\<rfloor> = k + 52"
    using pos a b by (subst floor_log_eq_powr_iff) simp_all
  then show ?thesis
    using assms(3) by (simp add: ulp_def binade_def)
qed

lemma round_even_value:
  assumes "real_of_int n - 1 / 2 < y \<and> y < real_of_int n + 1 / 2
           \<or> even n \<and> (y = real_of_int n - 1 / 2 \<or> y = real_of_int n + 1 / 2)"
  shows "round_even y = n"
proof -
  consider (inner) "real_of_int n - 1 / 2 < y" "y < real_of_int n + 1 / 2"
    | (below) "even n" "y = real_of_int n - 1 / 2"
    | (above) "even n" "y = real_of_int n + 1 / 2"
    using assms by blast
  then show ?thesis
  proof cases
    case inner
    show ?thesis
    proof (cases "real_of_int n \<le> y")
      case True
      with inner have "\<lfloor>y\<rfloor> = n" by (simp add: floor_eq_iff)
      with inner show ?thesis by (simp add: round_even_def Let_def)
    next
      case False
      with inner have f: "\<lfloor>y\<rfloor> = n - 1" by (simp add: floor_eq_iff)
      with inner show ?thesis by (simp add: round_even_def Let_def)
    qed
  next
    case below
    then have f: "\<lfloor>y\<rfloor> = n - 1" by (simp add: floor_eq_iff)
    with below show ?thesis by (simp add: round_even_def Let_def)
  next
    case above
    then have f: "\<lfloor>y\<rfloor> = n" by (simp add: floor_eq_iff)
    with above show ?thesis by (simp add: round_even_def Let_def)
  qed
qed

lemma to_double_value:
  assumes v: "v = real_of_int n * 2 powi k"
    and k: "- 1074 \<le> k" "k \<le> 970"
    and lo: "2 powi k * 2 ^ 52 \<le> \<bar>x\<bar>" and hi: "\<bar>x\<bar> < 2 powi k * 2 ^ 53"
    and r: "real_of_int n - 1 / 2 < x / 2 powi k \<and> x / 2 powi k < real_of_int n + 1 / 2
           \<or> even n \<and> (x / 2 powi k = real_of_int n - 1 / 2
                       \<or> x / 2 powi k = real_of_int n + 1 / 2)"
  shows "to_double x = Num v"
proof -
  have u: "ulp x = 2 powi k" by (rule ulp_normal [OF lo hi k(1)])
  have n: "round_even (x / 2 powi k) = n" by (rule round_even_value [OF r])
  have q: "(0::real) < 2 powi k" by simp
  have "\<bar>x / 2 powi k\<bar> < 2 ^ 53"
    using hi q by (simp add: field_simps del: zero_less_power_int)
  then have "\<bar>real_of_int n\<bar> < 2 ^ 53 + 1"
    using r by (auto simp: abs_if split: if_splits)
  then have "\<bar>n\<bar> < 2 ^ 53 + 1"
    by (metis (mono_tags, opaque_lifting) of_int_abs of_int_less_iff of_int_numeral of_int_power
        of_int_add of_int_1)
  then have nb: "\<bar>real_of_int n\<bar> \<le> 2 ^ 53"
    by (metis of_int_abs of_int_le_iff of_int_numeral of_int_power zless_add1_eq le_less)
  have le: "(2::real) powi k \<le> 2 powi 970"
    using k(2) by (intro power_int_increasing) simp_all
  have "\<bar>real_of_int n\<bar> * 2 powi k \<le> 2 ^ 53 * 2 powi 970"
    by (rule mult_mono [OF nb le]) simp_all
  moreover have "(2::real) ^ 53 * 2 powi 970 < 2 ^ 1024" by simp
  moreover have "\<bar>real_of_int n * 2 powi k\<bar> = \<bar>real_of_int n\<bar> * 2 powi k"
    by (simp add: abs_mult)
  ultimately have small: "\<not> 2 ^ 1024 \<le> \<bar>real_of_int n * 2 powi k\<bar>" by linarith
  show ?thesis
    using small by (simp add: to_double_def u n v Let_def)
qed

lemma to_double_zero: "to_double 0 = Num 0"
  by (simp add: to_double_def round_even_def Let_def)

text \<open>A number of magnitude below half the smallest positive double rounds to zero.\<close>

lemma to_double_underflow:
  assumes "\<bar>x\<bar> < 2 powi (- 1075)"
  shows "to_double x = Num 0"
proof (cases "x = 0")
  case True
  then show ?thesis by (simp add: to_double_zero)
next
  case False
  then have pos: "0 < \<bar>x\<bar>" by simp
  have "\<bar>x\<bar> < 2 powr real_of_int (- 1075)"
    using assms by (simp only: two_powr_int)
  then have "log 2 \<bar>x\<bar> < real_of_int (- 1075)"
    using pos by (simp add: log_less_iff)
  then have "\<lfloor>log 2 \<bar>x\<bar>\<rfloor> < - 1075"
    by (simp add: floor_less_iff)
  then have u: "ulp x = 2 powi (- 1074)"
    by (simp add: ulp_def binade_def max_def)
  have "(2::real) powi (- 1075) = 2 powi (- 1074) / 2"
    by (simp add: power_int_minus field_simps)
  with assms have "\<bar>x\<bar> < 2 powi (- 1074) / 2" by simp
  then have "\<bar>x / 2 powi (- 1074)\<bar> < 1 / 2"
    by (simp add: field_simps del: zero_less_power_int)
  then have "round_even (x / 2 powi (- 1074)) = 0"
    by (intro round_even_value) (auto simp: abs_if split: if_splits)
  then show ?thesis
    by (simp add: to_double_def u Let_def)
qed

lemma round_even_ge:
  assumes "real_of_int n \<le> y"
  shows "n \<le> round_even y"
proof -
  have "n \<le> \<lfloor>y\<rfloor>" using assms by (simp add: le_floor_iff)
  then show ?thesis by (simp add: round_even_def Let_def)
qed

text \<open>Rounding does not go below a double that the rounded number is not below.\<close>

lemma to_double_ge:
  assumes v: "v = real_of_int n * 2 powi k"
    and n: "2 ^ 52 \<le> n" "n < 2 ^ 53"
    and k: "- 1074 \<le> k"
    and x: "v \<le> x"
  shows "to_double x = PosInf \<or> (\<exists>y. to_double x = Num y \<and> v \<le> y)"
proof -
  define e where "e = \<lfloor>log 2 \<bar>x\<bar>\<rfloor>"
  have q: "(0::real) < 2 powi k" by simp
  have nr: "(2::real) ^ 52 \<le> real_of_int n" "real_of_int n < 2 ^ 53"
    using n by (metis of_int_le_iff of_int_numeral of_int_power,
      metis of_int_less_iff of_int_numeral of_int_power)
  have vlo: "2 powi (k + 52) \<le> v"
    using nr(1) q by (simp add: v two_powi_shift [of k 52, simplified] mult.commute)
  have vpos: "0 < v" using vlo
    by (meson less_le_trans zero_less_power_int zero_less_numeral)
  have xpos: "0 < x" using vpos x by simp
  have "real_of_int (k + 52) \<le> log 2 x"
    using vlo x xpos by (simp add: le_log_iff two_powr_int del: of_int_add)
  then have ek: "k + 52 \<le> e"
    using xpos by (simp add: e_def le_floor_iff)
  have "real_of_int e \<le> log 2 x" using xpos by (simp add: e_def)
  then have "2 powr real_of_int e \<le> x"
    using xpos by (simp add: le_log_iff)
  then have xe: "2 powi e \<le> x" by (simp only: two_powr_int)
  have b: "binade x = e"
    using ek k xpos by (simp add: binade_def e_def)
  have u: "ulp x = 2 powi (e - 52)" by (simp add: ulp_def b)
  define y where "y = real_of_int (round_even (x / 2 powi (e - 52))) * 2 powi (e - 52)"
  have vy: "v \<le> y"
  proof (cases "e - 52 = k")
    case True
    have "real_of_int n \<le> x / 2 powi k"
      using x q by (simp add: v field_simps del: zero_less_power_int)
    then have "n \<le> round_even (x / 2 powi k)" by (rule round_even_ge)
    then have "real_of_int n * 2 powi k \<le> real_of_int (round_even (x / 2 powi k)) * 2 powi k"
      using q by (simp del: zero_less_power_int)
    then show ?thesis by (simp add: y_def True v)
  next
    case False
    with ek have lt: "k + 1 \<le> e - 52" by simp
    have "(2::real) ^ 52 * 2 powi (e - 52) = 2 powi e"
      using two_powi_shift [of "e - 52" 52] by (simp add: mult.commute)
    then have "real_of_int (2 ^ 52) \<le> x / 2 powi (e - 52)"
      using xe by (simp add: field_simps)
    then have "2 ^ 52 \<le> round_even (x / 2 powi (e - 52))" by (rule round_even_ge)
    then have "(2::real) ^ 52 \<le> real_of_int (round_even (x / 2 powi (e - 52)))"
      by (metis of_int_le_iff of_int_numeral of_int_power)
    then have "2 ^ 52 * 2 powi (e - 52) \<le> y"
      by (simp add: y_def)
    moreover have "(2::real) powi (k + 1) \<le> 2 powi (e - 52)"
      using lt by (intro power_int_increasing) simp_all
    moreover have "v \<le> 2 ^ 53 * 2 powi k"
      using nr(2) q by (simp add: v del: zero_less_power_int)
    moreover have "(2::real) ^ 53 * 2 powi k = 2 ^ 52 * 2 powi (k + 1)"
      by (simp add: power_int_add)
    ultimately have "v \<le> 2 ^ 52 * 2 powi (k + 1)"
      and "(2::real) ^ 52 * 2 powi (k + 1) \<le> 2 ^ 52 * 2 powi (e - 52)"
      and "2 ^ 52 * 2 powi (e - 52) \<le> y"
      by simp_all
    then show ?thesis by linarith
  qed
  show ?thesis
    using vy xpos by (auto simp: to_double_def u y_def Let_def)
qed

text \<open>
  The roundings that the examples of this development need. Each states the double
  nearest to a rational number and is checked against the definition of \<open>to_double\<close>.
\<close>

lemma double_1: "to_double (- (11 / 20)) = Num (- (2476979795053773 / 4503599627370496))"
  by (rule to_double_value [where k = "- 53" and n = "- 4953959590107546"]) simp_all

lemma double_2: "to_double (- (7926335344172075 / 288230376151711744)) = Num (- (7926335344172075 / 288230376151711744))"
  by (rule to_double_value [where k = "- 58" and n = "- 7926335344172075"]) simp_all

lemma double_3: "to_double (- (3569704090242694976399434993107 / 649037107316853453566312041152512)) = Num (- (1585267068834415 / 288230376151711744))"
  by (rule to_double_value [where k = "- 60" and n = "- 6341068275337660"]) simp_all

lemma double_4: "to_double (4867587181993932214296932232025 / 486758718199393185905138158879335824512690987235935935807326608093389461875457077717170307853758033112728109786874163242277526577348883415260625258630454448958851339031698963528788130944217379205372661426234040935747619225706183422949563646538392323102410094045492427110428240352184713843288056815483420468520434218585272271204538740055411301034765549545706203085248854570715643472931568237323379122474462840024626282270844603561148416) = Num 0"
  by (rule to_double_underflow) simp

lemma double_5: "to_double (1723641332219371 / 17236413322193710308527275648221605611275353465890976102803966863175621523200674437902062506074401836980577792347924783802022075597402288498697223440472083169133276925553687259354443801835348679954573727287808412876800) = Num (2206260905240795 / 22062609052407949194914912829723655182432452436340449411589077584864795549696863280514640007775234351335139574205343723266588256764674929278332446003804266456490594464708719691973688066349246310341854370928394768482304)"
  by (rule to_double_value [where k = "- 724" and n = "8825043620963180"]) simp_all

lemma double_6: "to_double (1 / 100000000000000000000000000000000000000000000000000000000000000000000000000000000000000000000000000000000000000000000000000000000000000000000000000000000000000000000000000000000000000000000000000000000) = Num (1723641332219371 / 172364133221937103085272756482216056112753534658909761028039668631756215232006744379020625060744018369805777923479247838020220755974022884986972234404720831691332769255536872593544438018353486799545737272878084128768)"
  by (rule to_double_value [where k = "- 717" and n = "6894565328877484"]) simp_all

lemma double_7: "to_double (33230699894622898206100982035225 / 332306998946228968225951765070086144) = Num (7378697629483821 / 73786976294838206464)"
  by (rule to_double_value [where k = "- 66" and n = "7378697629483821"]) simp_all

lemma double_8: "to_double (7378697629483821 / 73786976294838206464) = Num (7378697629483821 / 73786976294838206464)"
  by (rule to_double_value [where k = "- 66" and n = "7378697629483821"]) simp_all

lemma double_9: "to_double (1 / 100) = Num (5764607523034235 / 576460752303423488)"
  by (rule to_double_value [where k = "- 59" and n = "5764607523034235"]) simp_all

lemma double_10: "to_double (184467440737095525 / 18446744073709551616) = Num (5764607523034235 / 576460752303423488)"
  by (rule to_double_value [where k = "- 59" and n = "5764607523034235"]) simp_all

lemma double_11: "to_double (12980742146337070512478121581609 / 1298074214633706907132624082305024) = Num (1441151880758559 / 144115188075855872)"
  by (rule to_double_value [where k = "- 59" and n = "5764607523034236"]) simp_all

lemma double_12: "to_double (2976597878715187 / 70368744177664000) = Num (6096072455608703 / 144115188075855872)"
  by (rule to_double_value [where k = "- 57" and n = "6096072455608703"]) simp_all

lemma double_13: "to_double (423 / 10000) = Num (6096072455608703 / 144115188075855872)"
  by (rule to_double_value [where k = "- 57" and n = "6096072455608703"]) simp_all

lemma double_14: "to_double (7626186010973028070396967228801 / 162259276829213363391578010288128) = Num (3386706919782613 / 72057594037927936)"
  by (rule to_double_value [where k = "- 57" and n = "6773413839565226"]) simp_all

lemma double_15: "to_double (1 / 20) = Num (3602879701896397 / 72057594037927936)"
  by (rule to_double_value [where k = "- 57" and n = "7205759403792794"]) simp_all

lemma double_16: "to_double (673 / 10000) = Num (2424738039376275 / 36028797018963968)"
  by (rule to_double_value [where k = "- 56" and n = "4849476078752550"]) simp_all

lemma double_17: "to_double (9 / 100) = Num (3242591731706757 / 36028797018963968)"
  by (rule to_double_value [where k = "- 56" and n = "6485183463413514"]) simp_all

lemma double_18: "to_double (1 / 10) = Num (3602879701896397 / 36028797018963968)"
  by (rule to_double_value [where k = "- 56" and n = "7205759403792794"]) simp_all

lemma double_19: "to_double (17 / 100) = Num (6124895493223875 / 36028797018963968)"
  by (rule to_double_value [where k = "- 55" and n = "6124895493223875"]) simp_all

lemma double_20: "to_double (6997025665067753143913256589795 / 40564819207303340847894502572032) = Num (6214607197801095 / 36028797018963968)"
  by (rule to_double_value [where k = "- 55" and n = "6214607197801095"]) simp_all

lemma double_21: "to_double (47 / 100) = Num (2116691824864133 / 4503599627370496)"
  by (rule to_double_value [where k = "- 54" and n = "8466767299456532"]) simp_all

lemma double_22: "to_double (11 / 20) = Num (2476979795053773 / 4503599627370496)"
  by (rule to_double_value [where k = "- 53" and n = "4953959590107546"]) simp_all

lemma double_23: "to_double (5404319552844595 / 9007199254740992) = Num (5404319552844595 / 9007199254740992)"
  by (rule to_double_value [where k = "- 53" and n = "5404319552844595"]) simp_all

lemma double_24: "to_double (3 / 5) = Num (5404319552844595 / 9007199254740992)"
  by (rule to_double_value [where k = "- 53" and n = "5404319552844595"]) simp_all

lemma double_25: "to_double (6350075474592399 / 9007199254740992) = Num (6350075474592399 / 9007199254740992)"
  by (rule to_double_value [where k = "- 53" and n = "6350075474592399"]) simp_all

lemma double_26: "to_double (799388933858263 / 1125899906842624) = Num (799388933858263 / 1125899906842624)"
  by (rule to_double_value [where k = "- 53" and n = "6395111470866104"]) simp_all

lemma double_27: "to_double (71 / 100) = Num (799388933858263 / 1125899906842624)"
  by (rule to_double_value [where k = "- 53" and n = "6395111470866104"]) simp_all

lemma double_28: "to_double (122 / 125) = Num (1098878309078401 / 1125899906842624)"
  by (rule to_double_value [where k = "- 53" and n = "8791026472627208"]) simp_all

lemma double_29: "to_double 1 = Num 1"
  by (rule to_double_value [where k = "- 52" and n = "4503599627370496"]) simp_all

lemma double_30: "to_double (47 / 40) = Num (5291729562160333 / 4503599627370496)"
  by (rule to_double_value [where k = "- 52" and n = "5291729562160333"]) simp_all

lemma double_31: "to_double (27021597764222975 / 18014398509481984) = Num (3 / 2)"
  by (rule to_double_value [where k = "- 52" and n = "6755399441055744"]) simp_all

lemma double_32: "to_double (3 / 2) = Num (3 / 2)"
  by (rule to_double_value [where k = "- 52" and n = "6755399441055744"]) simp_all

lemma double_33: "to_double (7586190427003289 / 4398046511104000) = Num (971032374656421 / 562949953421312)"
  by (rule to_double_value [where k = "- 52" and n = "7768258997251368"]) simp_all

lemma double_34: "to_double (69 / 40) = Num (3884354678607053 / 2251799813685248)"
  by (rule to_double_value [where k = "- 52" and n = "7768709357214106"]) simp_all

lemma double_35: "to_double (211 / 100) = Num (4751297606875873 / 2251799813685248)"
  by (rule to_double_value [where k = "- 51" and n = "4751297606875873"]) simp_all

lemma double_36: "to_double (19050226423777197 / 9007199254740992) = Num (4762556605944299 / 2251799813685248)"
  by (rule to_double_value [where k = "- 51" and n = "4762556605944299"]) simp_all

lemma double_37: "to_double (5 / 2) = Num (5 / 2)"
  by (rule to_double_value [where k = "- 51" and n = "5629499534213120"]) simp_all

lemma double_38: "to_double (13119423122002036370077482709785 / 5070602400912917605986812821504) = Num (2913097123969263 / 1125899906842624)"
  by (rule to_double_value [where k = "- 51" and n = "5826194247938526"]) simp_all

lemma double_39: "to_double (729020189680599 / 281474976710656) = Num (729020189680599 / 281474976710656)"
  by (rule to_double_value [where k = "- 51" and n = "5832161517444792"]) simp_all

lemma double_40: "to_double (259 / 100) = Num (729020189680599 / 281474976710656)"
  by (rule to_double_value [where k = "- 51" and n = "5832161517444792"]) simp_all

lemma double_41: "to_double (367 / 100) = Num (2066026329056215 / 562949953421312)"
  by (rule to_double_value [where k = "- 51" and n = "8264105316224860"]) simp_all

lemma double_42: "to_double (539 / 125) = Num (4854880398305395 / 1125899906842624)"
  by (rule to_double_value [where k = "- 50" and n = "4854880398305395"]) simp_all

lemma double_43: "to_double (17249 / 4000) = Num (4855161873282105 / 1125899906842624)"
  by (rule to_double_value [where k = "- 50" and n = "4855161873282105"]) simp_all

lemma double_44: "to_double (9 / 2) = Num (9 / 2)"
  by (rule to_double_value [where k = "- 50" and n = "5066549580791808"]) simp_all

lemma double_45: "to_double (84667672994565325 / 18014398509481984) = Num (5291729562160333 / 1125899906842624)"
  by (rule to_double_value [where k = "- 50" and n = "5291729562160333"]) simp_all

lemma double_46: "to_double (26 / 5) = Num (5854679515581645 / 1125899906842624)"
  by (rule to_double_value [where k = "- 50" and n = "5854679515581645"]) simp_all

lemma double_47: "to_double (27021597764222975 / 4503599627370496) = Num 6"
  by (rule to_double_value [where k = "- 50" and n = "6755399441055744"]) simp_all

lemma double_48: "to_double (194 / 25) = Num (4368491638549381 / 562949953421312)"
  by (rule to_double_value [where k = "- 50" and n = "8736983277098762"]) simp_all

lemma double_49: "to_double (9839567341501526761051529768285 / 1267650600228229401496703205376) = Num (2184822842976947 / 281474976710656)"
  by (rule to_double_value [where k = "- 50" and n = "8739291371907788"]) simp_all

lemma double_50: "to_double (90071992547409925 / 9007199254740992) = Num 10"
  by (rule to_double_value [where k = "- 49" and n = "5629499534213120"]) simp_all

lemma double_51: "to_double (27021597764222975 / 2251799813685248) = Num 12"
  by (rule to_double_value [where k = "- 49" and n = "6755399441055744"]) simp_all

lemma double_52: "to_double 15 = Num 15"
  by (rule to_double_value [where k = "- 49" and n = "8444249301319680"]) simp_all

lemma double_53: "to_double (155365179945027375 / 9007199254740992) = Num (4855161873282105 / 281474976710656)"
  by (rule to_double_value [where k = "- 48" and n = "4855161873282105"]) simp_all

lemma double_54: "to_double 20 = Num 20"
  by (rule to_double_value [where k = "- 48" and n = "5629499534213120"]) simp_all

lemma double_55: "to_double 25 = Num 25"
  by (rule to_double_value [where k = "- 48" and n = "7036874417766400"]) simp_all

lemma double_56: "to_double (127 / 5) = Num (3574732204225331 / 140737488355328)"
  by (rule to_double_value [where k = "- 48" and n = "7149464408450662"]) simp_all

lemma double_57: "to_double (146 / 5) = Num (8219069319951155 / 281474976710656)"
  by (rule to_double_value [where k = "- 48" and n = "8219069319951155"]) simp_all

lemma double_58: "to_double 35 = Num 35"
  by (rule to_double_value [where k = "- 47" and n = "4925812092436480"]) simp_all

lemma double_59: "to_double (383 / 10) = Num (2695122902004531 / 70368744177664)"
  by (rule to_double_value [where k = "- 47" and n = "5390245804009062"]) simp_all

lemma double_60: "to_double (115 / 3) = Num (5394937053620907 / 140737488355328)"
  by (rule to_double_value [where k = "- 47" and n = "5394937053620907"]) simp_all

lemma double_61: "to_double 40 = Num 40"
  by (rule to_double_value [where k = "- 47" and n = "5629499534213120"]) simp_all

lemma double_62: "to_double (2976597878715187 / 70368744177664) = Num (2976597878715187 / 70368744177664)"
  by (rule to_double_value [where k = "- 47" and n = "5953195757430374"]) simp_all

lemma double_63: "to_double (95251132118885985 / 2251799813685248) = Num (2976597878715187 / 70368744177664)"
  by (rule to_double_value [where k = "- 47" and n = "5953195757430374"]) simp_all

lemma double_64: "to_double (423 / 10) = Num (2976597878715187 / 70368744177664)"
  by (rule to_double_value [where k = "- 47" and n = "5953195757430374"]) simp_all

lemma double_65: "to_double (48424954993301255 / 1125899906842624) = Num (6053119374162657 / 140737488355328)"
  by (rule to_double_value [where k = "- 47" and n = "6053119374162657"]) simp_all

lemma double_66: "to_double (158751886864809975 / 2251799813685248) = Num (141 / 2)"
  by (rule to_double_value [where k = "- 46" and n = "4960996464525312"]) simp_all

lemma double_67: "to_double 75 = Num 75"
  by (rule to_double_value [where k = "- 46" and n = "5277655813324800"]) simp_all

lemma double_68: "to_double 80 = Num 80"
  by (rule to_double_value [where k = "- 46" and n = "5629499534213120"]) simp_all

lemma double_69: "to_double (95251132118885985 / 1125899906842624) = Num (2976597878715187 / 35184372088832)"
  by (rule to_double_value [where k = "- 46" and n = "5953195757430374"]) simp_all

lemma double_70: "to_double (423 / 5) = Num (2976597878715187 / 35184372088832)"
  by (rule to_double_value [where k = "- 46" and n = "5953195757430374"]) simp_all

lemma double_71: "to_double 90 = Num 90"
  by (rule to_double_value [where k = "- 46" and n = "6333186975989760"]) simp_all

lemma double_72: "to_double (183 / 2) = Num (183 / 2)"
  by (rule to_double_value [where k = "- 46" and n = "6438740092256256"]) simp_all

lemma double_73: "to_double 115 = Num 115"
  by (rule to_double_value [where k = "- 46" and n = "8092405580431360"]) simp_all

lemma double_74: "to_double (8929793636145561 / 70368744177664) = Num (8929793636145561 / 70368744177664)"
  by (rule to_double_value [where k = "- 46" and n = "8929793636145561"]) simp_all

lemma double_75: "to_double (1269 / 10) = Num (4464896818072781 / 35184372088832)"
  by (rule to_double_value [where k = "- 46" and n = "8929793636145562"]) simp_all

lemma double_76: "to_double (17959510889023405 / 140737488355328) = Num (4489877722255851 / 35184372088832)"
  by (rule to_double_value [where k = "- 46" and n = "8979755444511702"]) simp_all

lemma double_77: "to_double (12761 / 100) = Num (8979755444511703 / 70368744177664)"
  by (rule to_double_value [where k = "- 46" and n = "8979755444511703"]) simp_all

lemma double_78: "to_double (8881992368127999 / 68719476736000) = Num (4547580092481535 / 35184372088832)"
  by (rule to_double_value [where k = "- 45" and n = "4547580092481535"]) simp_all

lemma double_79: "to_double (517 / 4) = Num (517 / 4)"
  by (rule to_double_value [where k = "- 45" and n = "4547580092481536"]) simp_all

lemma double_80: "to_double 150 = Num 150"
  by (rule to_double_value [where k = "- 45" and n = "5277655813324800"]) simp_all

lemma double_81: "to_double (3881 / 25) = Num (682752740383785 / 4398046511104)"
  by (rule to_double_value [where k = "- 45" and n = "5462021923070280"]) simp_all

lemma double_82: "to_double (682752740383785 / 4398046511104) = Num (682752740383785 / 4398046511104)"
  by (rule to_double_value [where k = "- 45" and n = "5462021923070280"]) simp_all

lemma double_83: "to_double (6149729588438454483910497237205 / 39614081257132168796771975168) = Num (85344642303787 / 549755813888)"
  by (rule to_double_value [where k = "- 45" and n = "5462057107442368"]) simp_all

lemma double_84: "to_double (44425195574242839 / 281474976710656) = Num (5553149446780355 / 35184372088832)"
  by (rule to_double_value [where k = "- 45" and n = "5553149446780355"]) simp_all

lemma double_85: "to_double 180 = Num 180"
  by (rule to_double_value [where k = "- 45" and n = "6333186975989760"]) simp_all

lemma double_86: "to_double 200 = Num 200"
  by (rule to_double_value [where k = "- 45" and n = "7036874417766400"]) simp_all

lemma double_87: "to_double (119063915148607475 / 562949953421312) = Num (7441494696787967 / 35184372088832)"
  by (rule to_double_value [where k = "- 45" and n = "7441494696787967"]) simp_all

lemma double_88: "to_double 225 = Num 225"
  by (rule to_double_value [where k = "- 45" and n = "7916483719987200"]) simp_all

lemma double_89: "to_double 250 = Num 250"
  by (rule to_double_value [where k = "- 45" and n = "8796093022208000"]) simp_all

lemma double_90: "to_double (72827428099231575 / 281474976710656) = Num (4551714256201973 / 17592186044416)"
  by (rule to_double_value [where k = "- 44" and n = "4551714256201973"]) simp_all

lemma double_91: "to_double 270 = Num 270"
  by (rule to_double_value [where k = "- 44" and n = "4749890231992320"]) simp_all

lemma double_92: "to_double (543 / 2) = Num (543 / 2)"
  by (rule to_double_value [where k = "- 44" and n = "4776278511058944"]) simp_all

lemma double_93: "to_double (20515838110031705 / 70368744177664) = Num (2564479763753963 / 8796093022208)"
  by (rule to_double_value [where k = "- 44" and n = "5128959527507926"]) simp_all

lemma double_94: "to_double (7762 / 25) = Num (682752740383785 / 2199023255552)"
  by (rule to_double_value [where k = "- 44" and n = "5462021923070280"]) simp_all

lemma double_95: "to_double (6149729588438454483910497237205 / 19807040628566084398385987584) = Num (85344642303787 / 274877906944)"
  by (rule to_double_value [where k = "- 44" and n = "5462057107442368"]) simp_all

lemma double_96: "to_double 350 = Num 350"
  by (rule to_double_value [where k = "- 44" and n = "6157265115545600"]) simp_all

lemma double_97: "to_double (26974685268104535 / 70368744177664) = Num (3371835658513067 / 8796093022208)"
  by (rule to_double_value [where k = "- 44" and n = "6743671317026134"]) simp_all

lemma double_98: "to_double 400 = Num 400"
  by (rule to_double_value [where k = "- 44" and n = "7036874417766400"]) simp_all

lemma double_99: "to_double 450 = Num 450"
  by (rule to_double_value [where k = "- 44" and n = "7916483719987200"]) simp_all

lemma double_100: "to_double (11643 / 25) = Num (2048258221151355 / 4398046511104)"
  by (rule to_double_value [where k = "- 44" and n = "8193032884605420"]) simp_all

lemma double_101: "to_double (2048258221151355 / 4398046511104) = Num (2048258221151355 / 4398046511104)"
  by (rule to_double_value [where k = "- 44" and n = "8193032884605420"]) simp_all

lemma double_102: "to_double (46831 / 100) = Num (8238596646460457 / 17592186044416)"
  by (rule to_double_value [where k = "- 44" and n = "8238596646460457"]) simp_all

lemma double_103: "to_double (16477193292920915 / 35184372088832) = Num (4119298323230229 / 8796093022208)"
  by (rule to_double_value [where k = "- 44" and n = "8238596646460458"]) simp_all

lemma double_104: "to_double (264586478108016625 / 562949953421312) = Num 470"
  by (rule to_double_value [where k = "- 44" and n = "8268327440875520"]) simp_all

lemma double_105: "to_double 470 = Num 470"
  by (rule to_double_value [where k = "- 44" and n = "8268327440875520"]) simp_all

lemma double_106: "to_double (474347 / 1000) = Num (2086200168402649 / 4398046511104)"
  by (rule to_double_value [where k = "- 44" and n = "8344800673610596"]) simp_all

lemma double_107: "to_double (8149227997757439 / 17179869184000) = Num (4172404734851809 / 8796093022208)"
  by (rule to_double_value [where k = "- 44" and n = "8344809469703618"]) simp_all

lemma double_108: "to_double (118587 / 250) = Num (8344818265796641 / 17592186044416)"
  by (rule to_double_value [where k = "- 44" and n = "8344818265796641"]) simp_all

lemma double_109: "to_double 625 = Num 625"
  by (rule to_double_value [where k = "- 43" and n = "5497558138880000"]) simp_all

lemma double_110: "to_double (54620571074423675 / 70368744177664) = Num (6827571384302959 / 8796093022208)"
  by (rule to_double_value [where k = "- 43" and n = "6827571384302959"]) simp_all

lemma double_111: "to_double 850 = Num 850"
  by (rule to_double_value [where k = "- 43" and n = "7476679068876800"]) simp_all

lemma double_112: "to_double (1322932390540083125 / 1125899906842624) = Num 1175"
  by (rule to_double_value [where k = "- 42" and n = "5167704650547200"]) simp_all

lemma double_113: "to_double 1175 = Num 1175"
  by (rule to_double_value [where k = "- 42" and n = "5167704650547200"]) simp_all

lemma double_114: "to_double (661466195270041625 / 562949953421312) = Num 1175"
  by (rule to_double_value [where k = "- 42" and n = "5167704650547200"]) simp_all

lemma double_115: "to_double (121379046832052625 / 70368744177664) = Num (7586190427003289 / 4398046511104)"
  by (rule to_double_value [where k = "- 42" and n = "7586190427003289"]) simp_all

lemma double_116: "to_double (485516187328210525 / 281474976710656) = Num (7586190427003289 / 4398046511104)"
  by (rule to_double_value [where k = "- 42" and n = "7586190427003289"]) simp_all

lemma double_117: "to_double (17249 / 10) = Num (3793095213501645 / 2199023255552)"
  by (rule to_double_value [where k = "- 42" and n = "7586190427003290"]) simp_all

lemma double_118: "to_double (74414946967879675 / 17592186044416) = Num 4230"
  by (rule to_double_value [where k = "- 40" and n = "4650934185492480"]) simp_all

lemma double_119: "to_double (606895234160263125 / 140737488355328) = Num (17249 / 4)"
  by (rule to_double_value [where k = "- 40" and n = "4741369016877056"]) simp_all

lemma double_120: "to_double (2427580936641052625 / 562949953421312) = Num (17249 / 4)"
  by (rule to_double_value [where k = "- 40" and n = "4741369016877056"]) simp_all

lemma double_121: "to_double (17249 / 4) = Num (17249 / 4)"
  by (rule to_double_value [where k = "- 40" and n = "4741369016877056"]) simp_all

lemma double_122: "to_double (74414946967879675 / 8796093022208) = Num 8460"
  by (rule to_double_value [where k = "- 39" and n = "4650934185492480"]) simp_all

lemma double_123: "to_double 9000 = Num 9000"
  by (rule to_double_value [where k = "- 39" and n = "4947802324992000"]) simp_all

lemma double_124: "to_double (223244840903639025 / 17592186044416) = Num 12690"
  by (rule to_double_value [where k = "- 39" and n = "6976401278238720"]) simp_all

lemma double_125: "to_double (112246943056396275 / 8796093022208) = Num (7015433941024767 / 549755813888)"
  by (rule to_double_value [where k = "- 39" and n = "7015433941024767"]) simp_all

lemma double_126: "to_double (17068818509594625 / 1099511627776) = Num 15524"
  by (rule to_double_value [where k = "- 39" and n = "8534409254797312"]) simp_all

lemma double_127: "to_double (2133616057594675 / 137438953472) = Num (2133616057594675 / 137438953472)"
  by (rule to_double_value [where k = "- 39" and n = "8534464230378700"]) simp_all

lemma double_128: "to_double 18000 = Num 18000"
  by (rule to_double_value [where k = "- 38" and n = "4947802324992000"]) simp_all

lemma double_129: "to_double 27000 = Num 27000"
  by (rule to_double_value [where k = "- 38" and n = "7421703487488000"]) simp_all

lemma double_130: "to_double 27150 = Num 27150"
  by (rule to_double_value [where k = "- 38" and n = "7462935173529600"]) simp_all

lemma double_131: "to_double (2133616057594675 / 68719476736) = Num (2133616057594675 / 68719476736)"
  by (rule to_double_value [where k = "- 38" and n = "8534464230378700"]) simp_all

lemma double_132: "to_double (51206455528783875 / 1099511627776) = Num 46572"
  by (rule to_double_value [where k = "- 37" and n = "6400806941097984"]) simp_all

lemma double_133: "to_double (102982458080755725 / 2199023255552) = Num (6436403630047233 / 137438953472)"
  by (rule to_double_value [where k = "- 37" and n = "6436403630047233"]) simp_all

lemma double_134: "to_double 47000 = Num 47000"
  by (rule to_double_value [where k = "- 37" and n = "6459630813184000"]) simp_all

lemma double_135: "to_double 117500 = Num 117500"
  by (rule to_double_value [where k = "- 36" and n = "8074538516480000"]) simp_all

lemma double_136: "to_double (568447511560191875 / 4398046511104) = Num (4440996184063999 / 34359738368)"
  by (rule to_double_value [where k = "- 36" and n = "8881992368127998"]) simp_all

lemma double_137: "to_double (72761281479704571875 / 562949953421312) = Num (8881992368127999 / 68719476736)"
  by (rule to_double_value [where k = "- 36" and n = "8881992368127999"]) simp_all

lemma double_138: "to_double 129250 = Num 129250"
  by (rule to_double_value [where k = "- 36" and n = "8881992368128000"]) simp_all

lemma double_139: "to_double (189654760675082225 / 1099511627776) = Num 172490"
  by (rule to_double_value [where k = "- 35" and n = "5926711271096320"]) simp_all

lemma double_140: "to_double 431225 = Num 431225"
  by (rule to_double_value [where k = "- 34" and n = "7408389088870400"]) simp_all

lemma double_141: "to_double (18350430087028807577059986463785 / 38685626227668133590597632) = Num (8149227997757439 / 17179869184)"
  by (rule to_double_value [where k = "- 34" and n = "8149227997757439"]) simp_all

lemma double_142: "to_double (521550591856476125 / 1099511627776) = Num (8149227997757439 / 17179869184)"
  by (rule to_double_value [where k = "- 34" and n = "8149227997757439"]) simp_all

lemma double_143: "to_double (948695 / 2) = Num (948695 / 2)"
  by (rule to_double_value [where k = "- 34" and n = "8149227997757440"]) simp_all

lemma double_144: "to_double (222049809203199975 / 17179869184) = Num (6939056537599999 / 536870912)"
  by (rule to_double_value [where k = "- 29" and n = "6939056537599999"]) simp_all

lemma double_145: "to_double (203730699943935975 / 4294967296) = Num (6366584373247999 / 134217728)"
  by (rule to_double_value [where k = "- 27" and n = "6366584373247999"]) simp_all

lemmas double_values =
  to_double_zero double_1 double_2 double_3 double_4 double_5 double_6 double_7 double_8
  double_9 double_10 double_11 double_12 double_13 double_14 double_15 double_16 double_17
  double_18 double_19 double_20 double_21 double_22 double_23 double_24 double_25 double_26
  double_27 double_28 double_29 double_30 double_31 double_32 double_33 double_34 double_35
  double_36 double_37 double_38 double_39 double_40 double_41 double_42 double_43 double_44
  double_45 double_46 double_47 double_48 double_49 double_50 double_51 double_52 double_53
  double_54 double_55 double_56 double_57 double_58 double_59 double_60 double_61 double_62
  double_63 double_64 double_65 double_66 double_67 double_68 double_69 double_70 double_71
  double_72 double_73 double_74 double_75 double_76 double_77 double_78 double_79 double_80
  double_81 double_82 double_83 double_84 double_85 double_86 double_87 double_88 double_89
  double_90 double_91 double_92 double_93 double_94 double_95 double_96 double_97 double_98
  double_99 double_100 double_101 double_102 double_103 double_104 double_105 double_106
  double_107 double_108 double_109 double_110 double_111 double_112 double_113 double_114
  double_115 double_116 double_117 double_118 double_119 double_120 double_121 double_122
  double_123 double_124 double_125 double_126 double_127 double_128 double_129 double_130
  double_131 double_132 double_133 double_134 double_135 double_136 double_137 double_138
  double_139 double_140 double_141 double_142 double_143 double_144 double_145

section \<open>Guards, rounding and strings\<close>

lemma gt0_truthy: "gt0 x \<Longrightarrow> truthy x"
  by (cases x) auto

lemma truthy_gt0_given: "truthy_gt0 v = given_gt0 v"
  by (cases v) (auto simp: given_gt0_def dest: gt0_truthy)

lemma round_100: "fdiv (Math_round (fmul x (Num 100))) (Num 100) = spec_round 2 x"
  by (simp add: spec_round_def)

lemma round_10: "fdiv (Math_round (fmul x (Num 10))) (Num 10) = spec_round 1 x"
  by (simp add: spec_round_def)

lemma round_1000: "fdiv (Math_round (fmul x (Num 1000))) (Num 1000) = spec_round 3 x"
  by (simp add: spec_round_def)

lemma starts_with_append: "starts_with (k @ s) k"
  by (induction k) auto

lemma includes_prefix: "str_includes (k @ s) k"
  by (cases "k @ s") (auto simp: starts_with_append, metis starts_with_append)

lemma base_species: "getMethodUncertainty (''allometric_species_'' @ c) = Num 15"
  using includes_prefix [of "''allometric_species_''" c]
  by (simp add: getMethodUncertainty_def uncertainties_def)

section \<open>The estimator\<close>

lemma select_method_label:
  "map_option (\<lambda>r. fst (snd r)) (select_method pw m (resolve_species tbl m)) =
     map_option (spec_label tbl m) (spec_ladder m)"
  by (simp add: select_method_def spec_ladder_def truthy_gt0_given Let_def
      split: option.splits)

lemma estimate_label:
  "map_sum id method_label (estimateBiomass pw tbl m) =
     (case select_method pw m (resolve_species tbl m) of
        None \<Rightarrow> Inl InsufficientMeasurements
      | Some r \<Rightarrow> Inr (fst (snd r)))"
  by (simp add: estimateBiomass_def Let_def split: option.splits)

text \<open>
  Claim C1. For every measurement input, \<open>estimateBiomass\<close> picks its method by the
  priority ladder: full allometric when DBH and height are both greater than zero;
  otherwise crown-estimated DBH when height and canopy are; otherwise height-only when
  the height is; otherwise canopy-only when the canopy is; and when no rung applies it
  fails with the error of insufficient measurements and returns no estimate. The method
  that fired is read off the label of the estimate.
\<close>

theorem estimateBiomass_priority_ladder:
  "map_sum id method_label (estimateBiomass pw tbl m) =
     (case spec_ladder m of
        None \<Rightarrow> Inl InsufficientMeasurements
      | Some k \<Rightarrow> Inr (spec_label tbl m k))"
proof (cases "spec_ladder m")
  case None
  with select_method_label [of pw m tbl]
  have "select_method pw m (resolve_species tbl m) = None"
    by simp
  with None show ?thesis by (simp add: estimate_label)
next
  case (Some k)
  with select_method_label [of pw m tbl] obtain r
    where "select_method pw m (resolve_species tbl m) = Some r"
      and "fst (snd r) = spec_label tbl m k"
    by auto
  with Some show ?thesis by (simp add: estimate_label)
qed

theorem estimateBiomass_priority_ladder_witness:
  "map_sum id method_label (estimateBiomass rounded_pow Map.empty m_scenario) =
     Inr ''allometric_generic''
   \<and> map_sum id method_label
        (estimateBiomass rounded_pow Map.empty
           \<lparr>height_meters = None, dbh_cm = Some (Num 12), canopy_cover_m2 = None,
            species_code = None\<rparr>) = Inl InsufficientMeasurements"
  using estimateBiomass_priority_ladder [of rounded_pow Map.empty m_scenario]
    estimateBiomass_priority_ladder [of rounded_pow Map.empty
      "\<lparr>height_meters = None, dbh_cm = Some (Num 12), canopy_cover_m2 = None,
        species_code = None\<rparr>"]
  by (simp add: spec_ladder_def given_gt0_def m_scenario_def resolve_species_def lit_def
        double_values)

lemma resolve_unit:
  "resolve_species tbl_unit m_unit = Some unit_row"
  "resolve_species tbl_unit m_sapling = Some unit_row"
  by (simp_all add: resolve_species_def m_unit_def m_sapling_def getSpeciesData_def
        toUpperCase_def upper_char_def tbl_unit_def)

text \<open>
  Claim C2, as amended. When DBH and height are both greater than zero, and the species
  row that resolved, if any, holds numbers other than zero and \<open>NaN\<close> for its wood
  density, its coefficients and its uncertainty, \<open>estimateBiomass\<close> computes in the
  arithmetic of doubles \<open>a \<times> (\<rho> \<times> (dbh_cm/100)\<^sup>2 \<times> height)^b\<close> with the row's values or
  the defaults 0.0673, 0.6 and 0.976, replaces the result \<open>v\<close> by \<open>Math.max(v, 0.1)\<close>,
  derives carbon as biomass times 0.47 and CO2e as carbon times 3.67, rounds each of the
  three as \<open>Math.round(x \<times> 100) / 100\<close>, and reports the confidence 100 minus the species
  uncertainty, or 75 without species data.
\<close>

theorem full_allometric_clamped:
  assumes "dbh_cm m = Some dbh" and "gt0 dbh"
    and "height_meters m = Some h" and "gt0 h"
    and "nonzero_row (resolve_species tbl m)"
  shows "map_sum id estimate_figures (estimateBiomass pw tbl m) =
           Inr (spec_full_allometric_result pw (resolve_species tbl m) dbh h)"
  using assms gt0_truthy [of dbh] gt0_truthy [of h]
  by (cases "resolve_species tbl m")
     (simp_all add: estimateBiomass_def select_method_def Let_def estimate_figures_def
        spec_full_allometric_result_def spec_coefficients_def spec_full_allometric_def
        nonzero_row_def or_default_def round_100)

text \<open>
  A tree of 100 cm DBH and 4.5 m height, of a species with unit density and
  coefficients: the equation gives 4.5 kg, which is reported with 2.11 kg of carbon and
  7.76 kg of CO2e. A sapling of the same species, for which the equation gives a tenth
  of a gram, is reported with 0.1 kg.
\<close>

theorem full_allometric_clamped_witness:
  "dbh_cm m_unit = Some (Num 100) \<and> gt0 (Num 100)
   \<and> height_meters m_unit = Some (Num 4.5) \<and> gt0 (Num 4.5)
   \<and> nonzero_row (resolve_species tbl_unit m_unit)
   \<and> map_sum id estimate_figures (estimateBiomass rounded_pow tbl_unit m_unit) =
       Inr (Num 4.5, lit 2.11, lit 7.76, Num 80)
   \<and> map_sum id estimate_figures (estimateBiomass rounded_pow tbl_unit m_sapling) =
       Inr (lit 0.1, lit 0.05, lit 0.17, Num 80)"
proof -
  have d: "dbh_cm m_unit = Some (Num 100)" and h: "height_meters m_unit = Some (Num 4.5)"
    by (simp_all add: m_unit_def)
  have n: "nonzero_row (resolve_species tbl_unit m_unit)"
    by (simp add: resolve_unit nonzero_row_def unit_row_def)
  have d': "dbh_cm m_sapling = Some (Num 1)" and h': "height_meters m_sapling = Some (Num 1)"
    by (simp_all add: m_sapling_def)
  have n': "nonzero_row (resolve_species tbl_unit m_sapling)"
    by (simp add: resolve_unit nonzero_row_def unit_row_def)
  have big: "spec_full_allometric_result rounded_pow (Some unit_row) (Num 100) (Num 4.5) =
      (Num 4.5, lit 2.11, lit 7.76, Num 80)"
    by (simp add: spec_full_allometric_result_def spec_coefficients_def unit_row_def
          spec_full_allometric_def rounded_pow_def spec_round_def fsub_def Let_def lit_def
          is_integer_def power_divide double_values)
  have small: "spec_full_allometric_result rounded_pow (Some unit_row) (Num 1) (Num 1) =
      (lit 0.1, lit 0.05, lit 0.17, Num 80)"
    by (simp add: spec_full_allometric_result_def spec_coefficients_def unit_row_def
          spec_full_allometric_def rounded_pow_def spec_round_def fsub_def Let_def lit_def
          is_integer_def power_divide double_values)
  show ?thesis
    using full_allometric_clamped [of m_unit "Num 100" "Num 4.5" tbl_unit rounded_pow, OF d _ h _ n]
      full_allometric_clamped [of m_sapling "Num 1" "Num 1" tbl_unit rounded_pow, OF d' _ h' _ n']
      d h n big small
    by (simp add: resolve_unit)
qed

text \<open>
  Claim C2 as it is stated, without the clamp, fails: for the sapling of 1 cm DBH and
  1 m height the equation gives a tenth of a gram, which rounds to 0, and the estimate
  reports 0.1 kg.
\<close>

theorem full_allometric_unclamped_counterexample:
  "map_sum id biomass_estimate_kg (estimateBiomass rounded_pow tbl_unit m_sapling) =
     Inr (lit 0.1)
   \<and> spec_round 2 (spec_full_allometric rounded_pow (Num 1) (Num 1) (Num 1) (Num 1) (Num 1)) =
       Num 0"
proof -
  have f: "dbh_cm m_sapling = Some (Num 1)" "height_meters m_sapling = Some (Num 1)"
    "species_code m_sapling = Some ''unit''"
    by (simp_all add: m_sapling_def)
  have b: "getMethodUncertainty ''allometric_species_unit'' = Num 15"
    using base_species [of "''unit''"] by simp
  show ?thesis
    by (simp add: estimateBiomass_def resolve_unit select_method_def f b unit_row_def
          or_default_def spec_full_allometric_def rounded_pow_def spec_round_def fsub_def
          Let_def lit_def is_integer_def power_divide double_values)
qed

lemma resolve_negative: "resolve_species tbl_negative m_teak = Some teak_negative"
  by (simp add: resolve_species_def m_teak_def getSpeciesData_def toUpperCase_def
        upper_char_def tbl_negative_def)

text \<open>
  Claim C3 where the raw biomass is not a number. For a tree of 10 cm DBH and 5 m height
  of a species whose wood density is negative, the power of the negative product
  \<open>\<rho> \<times> DBH_m\<^sup>2 \<times> height\<close> is \<open>NaN\<close>; for a tree without species of \<open>1e-200\<close> cm DBH and
  infinite height, the square of the DBH underflows to zero and zero times infinity is
  \<open>NaN\<close>. In both cases the estimate succeeds, \<open>Math.max(biomassKg, 0.1)\<close> returns the
  \<open>NaN\<close> unchanged, and the biomass reported is \<open>NaN\<close>, which is not at least 0.1.
\<close>

theorem biomass_not_a_number:
  "map_sum id biomass_estimate_kg (estimateBiomass rounded_pow tbl_negative m_teak) = Inr NaN
   \<and> map_sum id biomass_estimate_kg (estimateBiomass rounded_pow Map.empty m_extreme) = Inr NaN
   \<and> \<not> js_ge NaN (lit 0.1)"
proof -
  have f: "dbh_cm m_teak = Some (Num 10)" "height_meters m_teak = Some (Num 5)"
    "species_code m_teak = Some ''teak''"
    by (simp_all add: m_teak_def)
  have "map_sum id biomass_estimate_kg (estimateBiomass rounded_pow tbl_negative m_teak) =
      Inr NaN"
    by (simp add: estimateBiomass_def resolve_negative select_method_def f teak_negative_def
          or_default_def rounded_pow_def Let_def lit_def is_integer_def power_divide
          double_values)
  moreover
  have "map_sum id biomass_estimate_kg (estimateBiomass rounded_pow Map.empty m_extreme) =
      Inr NaN"
    by (simp add: estimateBiomass_def resolve_species_def select_method_def m_extreme_def
          rounded_pow_def Let_def lit_def power_divide double_values)
  ultimately show ?thesis by simp
qed

text \<open>
  Apart from that, the claim holds: the biomass of a successful estimate is \<open>NaN\<close> or at
  least 0.1 kg.
\<close>

lemma tenth_double: "lit 0.1 = Num (3602879701896397 / 36028797018963968)"
  by (simp add: lit_def double_values)

lemma scaled_minimum:
  assumes "3602879701896397 / 36028797018963968 \<le> b"
  shows "js_ge (fdiv (Math_round (fmul (Num b) (Num 100))) (Num 100))
           (Num (3602879701896397 / 36028797018963968))"
proof -
  have "10 \<le> b * 100" using assms by simp
  then consider (inf) "to_double (b * 100) = PosInf"
    | (num) y where "to_double (b * 100) = Num y" "10 \<le> y"
    using to_double_ge [where v = 10 and n = 5629499534213120 and k = "- 49" and x = "b * 100"]
    by auto
  then show ?thesis
  proof cases
    case inf
    then show ?thesis by simp
  next
    case num
    define r where "r = \<lfloor>y + 1 / 2\<rfloor>"
    have r: "10 \<le> r" using num(2) by (simp add: r_def le_floor_iff)
    have step: "fdiv (Math_round (fmul (Num b) (Num 100))) (Num 100) =
        to_double (real_of_int r / 100)"
      by (simp add: num(1) r_def)
    show ?thesis
    proof (cases "r = 10")
      case True
      then show ?thesis unfolding step by (simp add: double_values)
    next
      case False
      with r have "11 \<le> r" by simp
      then have "(11::real) \<le> real_of_int r" by linarith
      then have "3602879701896397 / 36028797018963968 \<le> real_of_int r / 100" by simp
      then have "to_double (real_of_int r / 100) = PosInf
          \<or> (\<exists>z. to_double (real_of_int r / 100) = Num z
                 \<and> 3602879701896397 / 36028797018963968 \<le> z)"
        by (intro to_double_ge [where n = 7205759403792794 and k = "- 56"]) simp_all
      then show ?thesis unfolding step by auto
    qed
  qed
qed

lemma biomass_minimum_unless_nan:
  assumes "estimateBiomass pw tbl m = Inr e"
  shows "biomass_estimate_kg e = NaN \<or> js_ge (biomass_estimate_kg e) (lit 0.1)"
proof -
  obtain raw where e: "biomass_estimate_kg e =
      fdiv (Math_round (fmul (Math_max raw (lit 0.1)) (Num 100))) (Num 100)"
    using assms by (auto simp: estimateBiomass_def Let_def split: option.splits)
  show ?thesis
  proof (cases raw)
    case (Num x)
    have "3602879701896397 / 36028797018963968 \<le> max x (3602879701896397 / 36028797018963968)"
      by simp
    from scaled_minimum [OF this] show ?thesis by (simp add: e Num tenth_double)
  next
    case NaN
    then show ?thesis by (simp add: e tenth_double)
  next
    case PosInf
    then show ?thesis by (simp add: e tenth_double)
  next
    case NegInf
    from scaled_minimum [of "3602879701896397 / 36028797018963968"]
    show ?thesis by (simp add: e NegInf tenth_double)
  qed
qed

section \<open>Uncertainty\<close>

lemma label_uncertainty:
  "getMethodUncertainty (spec_label tbl m k) =
     spec_base_uncertainty k (resolve_species tbl m \<noteq> None)"
  by (cases k; cases "resolve_species tbl m")
     (simp_all add: base_species, simp_all add: getMethodUncertainty_def uncertainties_def)

lemma default_uncertainty: "getMethodUncertainty ''default'' = Num 30"
  by (simp add: getMethodUncertainty_def uncertainties_def)

text \<open>
  Apart from a species row whose uncertainty is zero, the reported uncertainty is the one
  of the specification: the base of the method that fired, combined with the species
  uncertainty by root-sum-of-squares when species data resolved, rounded to one decimal.
\<close>

lemma uncertainty_of_nonzero_row:
  assumes "case resolve_species tbl m of None \<Rightarrow> True
           | Some s \<Rightarrow> truthy (species_uncertainty_pct s)"
  shows "map_sum id uncertainty_pct (estimateBiomass pw tbl m) =
     (case spec_ladder m of
        None \<Rightarrow> Inl InsufficientMeasurements
      | Some k \<Rightarrow> Inr (spec_uncertainty pw tbl m k))"
proof (cases "spec_ladder m")
  case None
  with select_method_label [of pw m tbl]
  have "select_method pw m (resolve_species tbl m) = None"
    by simp
  with None show ?thesis by (simp add: estimateBiomass_def Let_def)
next
  case (Some k)
  with select_method_label [of pw m tbl] obtain raw l c
    where sel: "select_method pw m (resolve_species tbl m) = Some (raw, l, c)"
      and l: "l = spec_label tbl m k"
    by auto
  have "getMethodUncertainty l = spec_base_uncertainty k (resolve_species tbl m \<noteq> None)"
    using l label_uncertainty by simp
  then show ?thesis
    using assms Some sel
    by (cases "resolve_species tbl m")
       (simp_all add: estimateBiomass_def Let_def spec_uncertainty_def round_10
          or_default_def)
qed

lemma sqrt_225: "sqrt 225 = 15"
  by (rule real_sqrt_unique) simp_all

lemma sqrt_625: "sqrt 625 = 25"
  by (rule real_sqrt_unique) simp_all

lemma double_sqrt_850: "to_double (sqrt 850) = Num (4103167622006341 / 140737488355328)"
proof -
  have lo: "16412670488025363 / 562949953421312 < sqrt 850"
    by (rule real_less_rsqrt) (simp add: power2_eq_square)
  have hi: "sqrt 850 < 16412670488025365 / 562949953421312"
    by (rule real_less_lsqrt) (simp_all add: power2_eq_square)
  have a: "\<bar>sqrt 850\<bar> = sqrt 850" by simp
  show ?thesis
    by (rule to_double_value [where k = "- 48" and n = 8206335244012682])
       (use lo hi in \<open>simp_all add: a field_simps\<close>)
qed

lemma resolve_teak: "resolve_species tbl_zero m_teak = Some teak_zero"
  by (simp add: resolve_species_def m_teak_def getSpeciesData_def toUpperCase_def
        upper_char_def tbl_zero_def)

text \<open>
  Claim C7 at a species row whose uncertainty is 0. The claim gives the uncertainty
  \<open>sqrt (15\<^sup>2 + 0\<^sup>2) = 15\<close> for the species-specific allometric method; the code
  replaces the row's 0 by the default 25 and reports \<open>sqrt (15\<^sup>2 + 25\<^sup>2)\<close>, rounded to
  29.2.
\<close>

theorem zero_species_uncertainty_replaced:
  "map_sum id uncertainty_pct (estimateBiomass rounded_pow tbl_zero m_teak) = Inr (lit 29.2)
   \<and> spec_uncertainty rounded_pow tbl_zero m_teak FullAllometric = Num 15"
proof -
  have b: "getMethodUncertainty ''allometric_species_teak'' = Num 15"
    using base_species [of "''teak''"] by simp
  have u: "species_uncertainty_pct teak_zero = Num 0"
    by (simp add: teak_zero_def)
  have s: "select_method rounded_pow m_teak (Some teak_zero) \<noteq> None"
    "map_option (\<lambda>r. fst (snd r)) (select_method rounded_pow m_teak (Some teak_zero)) =
       Some ''allometric_species_teak''"
    by (simp_all add: select_method_def m_teak_def Let_def)
  then obtain raw c where sel: "select_method rounded_pow m_teak (Some teak_zero) =
      Some (raw, ''allometric_species_teak'', c)"
    by auto
  have "map_sum id uncertainty_pct (estimateBiomass rounded_pow tbl_zero m_teak) =
      Inr (lit 29.2)"
    by (simp add: estimateBiomass_def resolve_teak sel b u or_default_def Let_def
          rounded_pow_def lit_def double_sqrt_850 double_values)
  moreover have "spec_uncertainty rounded_pow tbl_zero m_teak FullAllometric = Num 15"
    by (simp add: spec_uncertainty_def resolve_teak u spec_round_def rounded_pow_def
          sqrt_225 double_values)
  ultimately show ?thesis by simp
qed

section \<open>Carbon credits\<close>

text \<open>
  Claim C5, as amended. For every biomass, \<open>calculateCredits\<close> returns, in the
  arithmetic of doubles, the credits \<open>Math.round(biomassKg \<times> 0.47 \<times> 3.67 / 1000 \<times> 1000)
  / 1000\<close>, the kg values rounded likewise to two and the tons values to three decimals;
  and \<open>calculateCredits(1000)\<close> returns 470 kg of carbon, 1724.9 kg of CO2e and 1.725
  credits.
\<close>

theorem calculateCredits_rounded:
  "creditsGenerated (calculateCredits biomassKg) =
     spec_round 3 (fdiv (fmul (fmul biomassKg (lit 0.47)) (lit 3.67)) (Num 1000))
   \<and> co2EquivalentTons (calculateCredits biomassKg) =
       spec_round 3 (fdiv (fmul (fmul biomassKg (lit 0.47)) (lit 3.67)) (Num 1000))
   \<and> carbonStockTons (calculateCredits biomassKg) =
       spec_round 3 (fdiv (fmul biomassKg (lit 0.47)) (Num 1000))
   \<and> carbonStockKg (calculateCredits biomassKg) = spec_round 2 (fmul biomassKg (lit 0.47))
   \<and> co2EquivalentKg (calculateCredits biomassKg) =
       spec_round 2 (fmul (fmul biomassKg (lit 0.47)) (lit 3.67))
   \<and> calculateCredits (Num 1000) =
       \<lparr>carbonStockKg = Num 470, carbonStockTons = lit 0.47, co2EquivalentKg = lit 1724.9,
        co2EquivalentTons = lit 1.725, creditsGenerated = lit 1.725\<rparr>"
proof -
  have "calculateCredits (Num 1000) =
       \<lparr>carbonStockKg = Num 470, carbonStockTons = lit 0.47, co2EquivalentKg = lit 1724.9,
        co2EquivalentTons = lit 1.725, creditsGenerated = lit 1.725\<rparr>"
    by (simp add: calculateCredits_def Let_def CARBON_FRACTION_def CO2_MOLECULAR_RATIO_def
          lit_def double_values)
  then show ?thesis
    by (simp add: calculateCredits_def Let_def CARBON_FRACTION_def CO2_MOLECULAR_RATIO_def
          round_100 round_1000)
qed

theorem calculateCredits_rounded_witness:
  "creditsGenerated (calculateCredits (Num 2500)) = lit 4.312
   \<and> carbonStockKg (calculateCredits (Num 2500)) = Num 1175"
  using calculateCredits_rounded [of "Num 2500"]
  by (simp add: spec_round_def lit_def double_values)

text \<open>
  Claim C5 as it is stated, with the product rounded to three decimals exactly, fails:
  for 275000 kg of biomass the product is 474.3475, which rounds to 474.348, and
  \<open>calculateCredits\<close> returns 474.347.
\<close>

theorem calculateCredits_exact_counterexample:
  "creditsGenerated (calculateCredits (Num 275000)) = lit 474.347
   \<and> exact_round 3 (275000 * 0.47 * 3.67 / 1000) = 474.348
   \<and> lit 474.347 \<noteq> lit 474.348"
  by (simp add: calculateCredits_def Let_def CARBON_FRACTION_def CO2_MOLECULAR_RATIO_def
        exact_round_def lit_def double_values)

section \<open>The plot aggregate\<close>

lemma successes_Nil: "successes pw tbl [] = []"
  by (simp add: successes_def)

lemma successes_Cons:
  "successes pw tbl (t # rows) =
     (case estimateBiomass pw tbl (measurements_of t) of
        Inl err \<Rightarrow> successes pw tbl rows
      | Inr e \<Rightarrow> (row_id t, e) # successes pw tbl rows)"
  by (simp add: successes_def split: sum.splits)

lemma process_trees_eq:
  "process_trees pw tbl rows st =
     st\<lparr>estimates := estimates st @ successes pw tbl rows,
        totalBiomass := foldl fadd (totalBiomass st)
                          (map (\<lambda>p. biomass_estimate_kg (snd p)) (successes pw tbl rows)),
        totalCarbon := foldl fadd (totalCarbon st)
                         (map (\<lambda>p. carbon_sequestration_kg (snd p)) (successes pw tbl rows)),
        totalCo2 := foldl fadd (totalCo2 st)
                      (map (\<lambda>p. co2_equivalent_kg (snd p)) (successes pw tbl rows)),
        totalUncertainty := foldl fadd (totalUncertainty st)
                              (map (\<lambda>p. uncertainty_pct (snd p)) (successes pw tbl rows)),
        estimatedTrees := estimatedTrees st + length (successes pw tbl rows)\<rparr>"
proof (induction rows arbitrary: st)
  case Nil
  then show ?case by (simp add: successes_Nil)
next
  case (Cons t rows)
  show ?case
    by (cases "estimateBiomass pw tbl (measurements_of t)")
       (simp_all add: Cons.IH process_tree_def successes_Cons measurements_of_def [symmetric])
qed

lemma plot_trees:
  "trees (estimatePlotBiomass pw tbl trees_of plotId) = successes pw tbl (trees_of plotId)"
  by (simp add: estimatePlotBiomass_def Let_def process_trees_eq loop_init_def)

lemma plot_total_trees:
  "total_trees (totals (estimatePlotBiomass pw tbl trees_of plotId)) =
     length (successes pw tbl (trees_of plotId))"
  by (simp add: estimatePlotBiomass_def Let_def process_trees_eq loop_init_def)

lemma plot_average:
  "average_uncertainty_pct (totals (estimatePlotBiomass pw tbl trees_of plotId)) =
     spec_round 1 (spec_mean (uncertainties_of (successes pw tbl (trees_of plotId))))"
  by (simp add: estimatePlotBiomass_def Let_def process_trees_eq loop_init_def round_10
       spec_mean_def js_sum_def uncertainties_of_def)

lemma plot_sums:
  "total_biomass_kg (totals (estimatePlotBiomass pw tbl trees_of plotId)) =
     spec_round 2 (sum_of biomass_estimate_kg (successes pw tbl (trees_of plotId)))"
  "total_carbon_kg (totals (estimatePlotBiomass pw tbl trees_of plotId)) =
     spec_round 2 (sum_of carbon_sequestration_kg (successes pw tbl (trees_of plotId)))"
  "total_co2_equivalent_kg (totals (estimatePlotBiomass pw tbl trees_of plotId)) =
     spec_round 2 (sum_of co2_equivalent_kg (successes pw tbl (trees_of plotId)))"
  by (simp_all add: estimatePlotBiomass_def Let_def process_trees_eq loop_init_def
        round_100 sum_of_def js_sum_def)

text \<open>The estimates of the example trees.\<close>

lemma estimate_canopy10:
  "estimateBiomass rounded_pow Map.empty (measurements_of tree_canopy10) =
     Inr \<lparr>biomass_estimate_kg = Num 90, carbon_sequestration_kg = lit 42.3,
          co2_equivalent_kg = lit 155.24, uncertainty_pct = Num 40,
          method_label = ''crown_area_estimation'', confidence_pct = Num 35,
          species_data = None\<rparr>"
  by (simp add: estimateBiomass_def resolve_species_def measurements_of_def tree_canopy10_def
        select_method_def getMethodUncertainty_def uncertainties_def Let_def lit_def
        double_values)

lemma estimate_canopy20:
  "estimateBiomass rounded_pow Map.empty (measurements_of tree_canopy20) =
     Inr \<lparr>biomass_estimate_kg = Num 180, carbon_sequestration_kg = lit 84.6,
          co2_equivalent_kg = lit 310.48, uncertainty_pct = Num 40,
          method_label = ''crown_area_estimation'', confidence_pct = Num 35,
          species_data = None\<rparr>"
  by (simp add: estimateBiomass_def resolve_species_def measurements_of_def tree_canopy20_def
        select_method_def getMethodUncertainty_def uncertainties_def Let_def lit_def
        double_values)

lemma estimate_height1:
  "estimateBiomass rounded_pow Map.empty (measurements_of tree_height1) =
     Inr \<lparr>biomass_estimate_kg = Num 1.5, carbon_sequestration_kg = lit 0.71,
          co2_equivalent_kg = lit 2.59, uncertainty_pct = Num 35,
          method_label = ''height_only_estimation'', confidence_pct = Num 40,
          species_data = None\<rparr>"
  by (simp add: estimateBiomass_def resolve_species_def measurements_of_def tree_height1_def
        select_method_def getMethodUncertainty_def uncertainties_def Let_def lit_def
        rounded_pow_def double_values)

lemma estimate_bare:
  "estimateBiomass pw Map.empty (measurements_of tree_bare) = Inl InsufficientMeasurements"
  by (simp add: estimateBiomass_def resolve_species_def measurements_of_def tree_bare_def
        select_method_def Let_def)

lemma row_ids:
  "row_id tree_canopy10 = ''1''" "row_id tree_bare = ''2''"
  "row_id tree_canopy20 = ''3''" "row_id tree_height1 = ''4''"
  by (simp_all add: tree_canopy10_def tree_bare_def tree_canopy20_def tree_height1_def)

text \<open>
  Claim C8, as amended. \<open>estimatePlotBiomass\<close> keeps exactly the trees whose estimate
  succeeded, in order, each with its estimate; \<open>total_trees\<close> counts them; and
  \<open>average_uncertainty_pct\<close> is the mean of their uncertainties (their sum in the
  arithmetic of doubles, divided by their number), 0 when there is none, rounded to one
  decimal place as \<open>Math.round(mean \<times> 10) / 10\<close>.
\<close>

theorem estimatePlotBiomass_successes:
  "trees (estimatePlotBiomass pw tbl trees_of plotId) = successes pw tbl (trees_of plotId)
   \<and> total_trees (totals (estimatePlotBiomass pw tbl trees_of plotId)) =
       length (successes pw tbl (trees_of plotId))
   \<and> average_uncertainty_pct (totals (estimatePlotBiomass pw tbl trees_of plotId)) =
       spec_round 1 (spec_mean (uncertainties_of (successes pw tbl (trees_of plotId))))"
proof -
  let ?st = "process_trees pw tbl (trees_of plotId) loop_init"
  have kept: "estimates ?st = successes pw tbl (trees_of plotId)"
    and counted: "estimatedTrees ?st = length (successes pw tbl (trees_of plotId))"
    by (simp_all add: process_trees_eq loop_init_def)
  have "trees (estimatePlotBiomass pw tbl trees_of plotId) = estimates ?st"
    and "total_trees (totals (estimatePlotBiomass pw tbl trees_of plotId)) = estimatedTrees ?st"
    by (simp_all add: estimatePlotBiomass_def Let_def)
  with kept counted show ?thesis
    by (simp add: plot_average)
qed

text \<open>
  A plot of three trees, the second without any measurement: two trees are counted and
  the second is absent from the result.
\<close>

theorem estimatePlotBiomass_successes_witness:
  "map fst (trees (estimatePlotBiomass rounded_pow Map.empty plot_partial ''p1'')) =
     [''1'', ''3'']
   \<and> total_trees (totals (estimatePlotBiomass rounded_pow Map.empty plot_partial ''p1'')) = 2
   \<and> average_uncertainty_pct
        (totals (estimatePlotBiomass rounded_pow Map.empty plot_partial ''p1'')) = Num 40"
  using estimatePlotBiomass_successes [of rounded_pow Map.empty plot_partial "''p1''"]
  by (simp add: plot_partial_def successes_Cons successes_Nil estimate_canopy10 estimate_bare
        estimate_canopy20 row_ids uncertainties_of_def spec_mean_def js_sum_def
        spec_round_def double_values)

text \<open>
  Claim C8 as it is stated, with the average equal to the mean, fails: for three trees
  of uncertainty 35, 40 and 40 the mean is the double nearest to 115/3 and the aggregate
  reports 38.3.
\<close>

theorem average_uncertainty_counterexample:
  "average_uncertainty_pct
     (totals (estimatePlotBiomass rounded_pow Map.empty plot_thirds ''p1'')) = lit 38.3
   \<and> spec_mean
       (uncertainties_of (trees (estimatePlotBiomass rounded_pow Map.empty plot_thirds ''p1'')))
       = to_double (115 / 3)
   \<and> lit 38.3 \<noteq> to_double (115 / 3)"
  by (simp add: plot_average plot_trees plot_thirds_def successes_Cons successes_Nil
        estimate_canopy10 estimate_height1 estimate_canopy20 uncertainties_of_def
        spec_mean_def js_sum_def spec_round_def lit_def double_values)

text \<open>
  Claim C9, as amended. The totals of \<open>estimatePlotBiomass\<close> have five fields: the count
  of the estimated trees, the sums in kg of biomass, carbon and CO2e over those trees,
  each rounded to two decimal places, and the average uncertainty. No field holds a
  value in tons.
\<close>

theorem plot_totals_in_kg:
  "map fst (totals_object (totals (estimatePlotBiomass pw tbl trees_of plotId))) =
     [''total_trees'', ''total_biomass_kg'', ''total_carbon_kg'', ''total_co2_equivalent_kg'',
      ''average_uncertainty_pct'']
   \<and> total_biomass_kg (totals (estimatePlotBiomass pw tbl trees_of plotId)) =
       spec_round 2 (sum_of biomass_estimate_kg (successes pw tbl (trees_of plotId)))
   \<and> total_carbon_kg (totals (estimatePlotBiomass pw tbl trees_of plotId)) =
       spec_round 2 (sum_of carbon_sequestration_kg (successes pw tbl (trees_of plotId)))
   \<and> total_co2_equivalent_kg (totals (estimatePlotBiomass pw tbl trees_of plotId)) =
       spec_round 2 (sum_of co2_equivalent_kg (successes pw tbl (trees_of plotId)))"
proof -
  have fields: "map fst (totals_object t) =
      [''total_trees'', ''total_biomass_kg'', ''total_carbon_kg'', ''total_co2_equivalent_kg'',
       ''average_uncertainty_pct'']" for t
    by (simp add: totals_object_def)
  show ?thesis
    using fields [of "totals (estimatePlotBiomass pw tbl trees_of plotId)"]
    by (simp add: plot_sums)
qed

lemma estimatePlotBiomass_total_fields:
  "total_trees (totals (estimatePlotBiomass pw tbl trees_of plotId)) =
     length (successes pw tbl (trees_of plotId))
   \<and> average_uncertainty_pct (totals (estimatePlotBiomass pw tbl trees_of plotId)) =
       spec_round 1 (spec_mean (uncertainties_of (successes pw tbl (trees_of plotId))))"
  by (simp add: plot_total_trees plot_average)

theorem plot_totals_in_kg_witness:
  "map snd (totals_object
      (totals (estimatePlotBiomass rounded_pow Map.empty plot_partial ''p1''))) =
     [Num 2, Num 270, lit 126.9, lit 465.72, Num 40]"
  using plot_totals_in_kg [of rounded_pow Map.empty plot_partial "''p1''"]
    estimatePlotBiomass_total_fields [of rounded_pow Map.empty plot_partial "''p1''"]
  by (simp add: totals_object_def plot_partial_def successes_Cons successes_Nil
        estimate_canopy10 estimate_bare estimate_canopy20 sum_of_def js_sum_def
        spec_round_def uncertainties_of_def spec_mean_def lit_def double_values)

text \<open>
  Claim C9 as it is stated fails: for a plot of one tree with 90 kg of biomass and
  42.3 kg of carbon, neither 0.09 t nor 0.0423 t is a value of the totals.
\<close>

theorem plot_totals_tons_counterexample:
  "map snd (totals_object
      (totals (estimatePlotBiomass rounded_pow Map.empty plot_single ''p1''))) =
     [Num 1, Num 90, lit 42.3, lit 155.24, Num 40]
   \<and> fdiv (Num 90) (Num 1000) \<notin> set [Num 1, Num 90, lit 42.3, lit 155.24, Num 40]
   \<and> fdiv (lit 42.3) (Num 1000) \<notin> set [Num 1, Num 90, lit 42.3, lit 155.24, Num 40]"
  by (simp add: totals_object_def plot_total_trees plot_average plot_sums plot_single_def
        successes_Cons successes_Nil estimate_canopy10 sum_of_def js_sum_def spec_round_def
        uncertainties_of_def spec_mean_def lit_def double_values)

section \<open>Paths and the file system\<close>

lemma dirname_join: "CHR ''/'' \<notin> set b \<Longrightarrow> dirname (path_join a b) = a"
proof -
  assume b: "CHR ''/'' \<notin> set b"
  have "dropWhile (\<lambda>c. c \<noteq> CHR ''/'') (rev b @ CHR ''/'' # rev a) = CHR ''/'' # rev a"
    using b by (subst dropWhile_append2) auto
  then show ?thesis by (simp add: dirname_def path_join_def)
qed

lemma self_in_ancestors: "p \<in> set (ancestors p)"
  by (simp add: ancestors_def)

lemma remove_first_prefix: "pat \<noteq> [] \<Longrightarrow> remove_first pat (pat @ s) = s"
  by (cases pat) (simp_all add: starts_with_append [of "_ # _", simplified])

lemma storage_path: "path_join (cwd e) (''storage/'' @ k) = path_join (BASE e) k"
  by (simp add: path_join_def BASE_def)

lemma ensureStorage_files: "ensureStorage e fs = Inr fs' \<Longrightarrow> files fs' = files fs \<and> dirs fs \<subseteq> dirs fs'"
  by (auto simp: ensureStorage_def mkdirSync_recursive_def split: if_splits)

lemma writeFileRel_ok:
  assumes "writeFileRel e fs p c = (Inr u, fs')"
  shows "files fs' = (files fs)(path_join (BASE e) p \<mapsto> c)"
    and "dirname (path_join (BASE e) p) \<in> dirs fs'"
    and "u = ''file://'' @ path_join (BASE e) p"
  using assms self_in_ancestors [of "dirname (path_join (BASE e) p)"]
  by (auto simp: writeFileRel_def Let_def mkdirSync_recursive_def
        dest!: ensureStorage_files split: sum.splits if_splits)

lemma sha256OfFile_Inr:
  "sha256OfFile e fs p = Inr d \<longleftrightarrow>
     (\<exists>buf. files fs p = Some buf \<and> \<not> read_fails e p \<and> d = sha256 e buf)"
  by (auto simp: sha256OfFile_def existsSync_def split: option.splits)

lemma hash_entries_Inr:
  "hash_entries e fs ks = Inr cs \<Longrightarrow>
     map fst cs = ks \<and>
     (\<forall>(k, d) \<in> set cs. sha256OfFile e fs (path_join (BASE e) k) = Inr d)"
proof (induction ks arbitrary: cs)
  case Nil
  then show ?case by simp
next
  case (Cons k ks)
  then show ?case
    by (auto simp: storage_path [simplified] split: sum.splits)
qed

lemma hash_all_map:
  "(\<forall>p \<in> set ps. sha256OfFile e fs p = Inr (d p)) \<Longrightarrow> hash_all e fs ps = Inr (map d ps)"
  by (induction ps) auto

lemma object_get_distinct:
  "distinct (map fst cs) \<Longrightarrow> (k, d) \<in> set cs \<Longrightarrow> object_get cs k = d"
  by (simp add: object_get_def distinct_rev rev_map [symmetric])

lemma find_appended:
  "x \<notin> set (map f xs) \<Longrightarrow> f r = x \<Longrightarrow> find (\<lambda>r. f r = x) (xs @ [r]) = Some r"
  by (induction xs) auto

text \<open>
  The heart of the round trip: once the checksums object has been computed from the disk
  and \<open>checksums.json\<close> has been written beside the hashed files, hashing the files
  again in the sorted order of the keys gives back the recorded digests.
\<close>

lemma rehash_after_checksums:
  assumes h: "hash_entries e fs1 ks = Inr cs"
    and d: "distinct ks"
    and w: "writeFileRel e fs1 pc (ChecksumsDoc cs) = (Inr u, fs2)"
    and n: "pc \<notin> set ks"
  shows "hash_all e fs2 (map (\<lambda>k. path_join (path_join (cwd e) ''storage'') k)
                           (sort (object_keys cs))) =
           Inr (map (\<lambda>k. object_get cs k) (sort (object_keys cs)))"
proof -
  from hash_entries_Inr [OF h]
  have keys: "map fst cs = ks"
    and dig: "\<forall>(k, d) \<in> set cs. sha256OfFile e fs1 (path_join (BASE e) k) = Inr d"
    by simp_all
  have dist: "distinct (map fst cs)" using keys d by simp
  have same: "files fs2 (path_join (BASE e) k) = files fs1 (path_join (BASE e) k)"
    if "k \<in> set ks" for k
    using that n writeFileRel_ok(1) [OF w] by (auto simp: path_join_def)
  have each: "sha256OfFile e fs2 (path_join (BASE e) k) = Inr (object_get cs k)"
    if "k \<in> set (sort (object_keys cs))" for k
  proof -
    from that have k: "k \<in> set ks" using keys by (auto simp: object_keys_def)
    then obtain dg where kd: "(k, dg) \<in> set cs" using keys by force
    with dig have "sha256OfFile e fs1 (path_join (BASE e) k) = Inr dg" by auto
    then have "sha256OfFile e fs2 (path_join (BASE e) k) = Inr dg"
      using same [OF k] by (simp add: sha256OfFile_Inr)
    then show ?thesis using object_get_distinct [OF dist kd] by simp
  qed
  have "hash_all e fs2 (map (\<lambda>k. path_join (BASE e) k) (sort (object_keys cs))) =
          Inr (map (\<lambda>p. object_get cs (drop (length (BASE e) + 1) p))
                 (map (\<lambda>k. path_join (BASE e) k) (sort (object_keys cs))))"
    by (rule hash_all_map) (auto simp: each, simp add: path_join_def each)
  then show ?thesis
    by (simp add: BASE_def comp_def path_join_def)
qed

section \<open>Export and verification\<close>

lemma write_package_success:
  assumes "write_package e fs0 relBase docs = (Inr cs, fs2)"
  shows "\<exists>fs1 u.
      hash_entries e fs1 [pInputs relBase, pOutputs relBase, pManifest relBase, pReport relBase]
        = Inr cs
    \<and> writeFileRel e fs1 (pChecks relBase) (ChecksumsDoc cs) = (Inr u, fs2)"
  using assms
  by (auto simp: write_package_def simp del: write_files.simps hash_entries.simps
        split: sum.splits prod.splits)

lemma persist_package_success:
  assumes "persist_package e db plot plotId relBase topHash = (Inr r, db')"
  shows "new_pkg_id e \<notin> set (map pkg_id (packages db))
    \<and> res_pkgId r = new_pkg_id e \<and> res_topHash r = topHash
    \<and> res_artifactsUri r = ''file://'' @ path_join (path_join (cwd e) ''storage'') relBase
    \<and> (\<exists>row. packages db' = packages db @ [row] \<and> pkg_id row = new_pkg_id e
          \<and> checksum row = topHash \<and> ledgerTxId row = None
          \<and> artifactsUri row = ''file://'' @ path_join (path_join (cwd e) ''storage'') relBase)"
  using assms
  by (auto simp: persist_package_def Let_def split: if_splits)

lemma export_success:
  assumes "exportMRVPackage e db fs plotId = (Inr r, db', fs')"
  shows "\<exists>fs0 plot cs.
      write_package e fs0 (package_relBase e plotId) (render e plotId) = (Inr cs, fs')
    \<and> persist_package e db plot plotId (package_relBase e plotId) (top_level_hash e cs)
        = (Inr r, db')"
  using assms
  by (auto simp: exportMRVPackage_def Let_def
        split: sum.splits option.splits if_splits prod.splits)

lemma export_keys_distinct:
  "distinct [pInputs relBase, pOutputs relBase, pManifest relBase, pReport relBase]"
  "pChecks relBase \<notin> set [pInputs relBase, pOutputs relBase, pManifest relBase, pReport relBase]"
  by (simp_all add: pInputs_def pOutputs_def pManifest_def pReport_def pChecks_def path_join_def)

lemma file_digests_hash_all:
  "file_digests e fs ks =
     (case hash_all e fs (map (\<lambda>k. path_join (path_join (cwd e) ''storage'') k) ks) of
        Inl err \<Rightarrow> None
      | Inr ds \<Rightarrow> Some ds)"
  by (induction ks) (auto simp: sha256OfFile_def existsSync_def split: option.splits sum.splits)

text \<open>
  What a returned export leaves behind: the new row is found under the returned id and
  stores the returned hash; the package folder and \<open>checksums.json\<close> are on the disk; the
  keys of \<open>checksums.json\<close> are the four artifact paths; and the returned hash is the
  top-level hash of the recorded digests, which are the digests of the files on the disk.
\<close>

lemma export_package_facts:
  assumes ex: "exportMRVPackage e db fs plotId = (Inr r, db', fs')"
  shows "\<exists>cs row.
      find (\<lambda>x. pkg_id x = res_pkgId r) (packages db') = Some row
    \<and> checksum row = res_topHash r \<and> ledgerTxId row = None
    \<and> artifactsUri row = res_artifactsUri r
    \<and> remove_first ''file://'' (res_artifactsUri r) =
        path_join (path_join (cwd e) ''storage'') (res_relBase r)
    \<and> existsSync fs' (path_join (path_join (cwd e) ''storage'') (res_relBase r))
    \<and> files fs' (path_join (path_join (path_join (cwd e) ''storage'') (res_relBase r))
                   ''checksums.json'') = Some (ChecksumsDoc cs)
    \<and> object_keys cs = artifact_keys (res_relBase r)
    \<and> res_topHash r = top_level_hash e cs
    \<and> hash_all e fs' (map (\<lambda>k. path_join (path_join (cwd e) ''storage'') k)
                          (sort (object_keys cs))) =
        Inr (map (\<lambda>k. object_get cs k) (sort (object_keys cs)))"
proof -
  let ?rel = "package_relBase e plotId"
  let ?folder = "path_join (path_join (cwd e) ''storage'') ?rel"
  from export_success [OF ex] obtain fs0 plot cs
    where wp: "write_package e fs0 ?rel (render e plotId) = (Inr cs, fs')"
      and pp: "persist_package e db plot plotId ?rel (top_level_hash e cs) = (Inr r, db')"
    by blast
  from write_package_success [OF wp] obtain fs1 u
    where he: "hash_entries e fs1 [pInputs ?rel, pOutputs ?rel, pManifest ?rel, pReport ?rel]
                 = Inr cs"
      and wc: "writeFileRel e fs1 (pChecks ?rel) (ChecksumsDoc cs) = (Inr u, fs')"
    by blast
  from persist_package_success [OF pp] obtain row
    where fresh: "new_pkg_id e \<notin> set (map pkg_id (packages db))"
      and rid: "res_pkgId r = new_pkg_id e" and rh: "res_topHash r = top_level_hash e cs"
      and ruri: "res_artifactsUri r = ''file://'' @ ?folder"
      and rows: "packages db' = packages db @ [row]" and row_id: "pkg_id row = new_pkg_id e"
      and row_sum: "checksum row = top_level_hash e cs" and row_tx: "ledgerTxId row = None"
      and row_uri: "artifactsUri row = ''file://'' @ ?folder"
    by blast
  have rrel: "res_relBase r = ?rel"
    using pp by (auto simp: persist_package_def Let_def split: if_splits)
  have found: "find (\<lambda>x. pkg_id x = res_pkgId r) (packages db') = Some row"
    using find_appended [of "new_pkg_id e" pkg_id "packages db" row] fresh row_id rows rid
    by simp
  have folder: "remove_first ''file://'' (res_artifactsUri r) = ?folder"
    using remove_first_prefix [of "''file://''" ?folder] ruri by simp
  have cpath: "path_join ?folder ''checksums.json'' = path_join (BASE e) (pChecks ?rel)"
    by (simp add: BASE_def pChecks_def path_join_def)
  have dir: "existsSync fs' ?folder"
    using writeFileRel_ok(2) [OF wc] dirname_join [of "''checksums.json''" ?folder] cpath
    by (simp add: existsSync_def)
  have doc: "files fs' (path_join ?folder ''checksums.json'') = Some (ChecksumsDoc cs)"
    using writeFileRel_ok(1) [OF wc] cpath by simp
  have keys: "object_keys cs = artifact_keys ?rel"
    using hash_entries_Inr [OF he] export_keys_distinct(1) [of ?rel]
    by (simp add: object_keys_def artifact_keys_def)
  have rehash: "hash_all e fs' (map (\<lambda>k. path_join (path_join (cwd e) ''storage'') k)
                                  (sort (object_keys cs))) =
                  Inr (map (\<lambda>k. object_get cs k) (sort (object_keys cs)))"
    by (rule rehash_after_checksums [OF he export_keys_distinct(1) wc export_keys_distinct(2)])
  show ?thesis
    using found row_sum rh row_tx row_uri ruri folder dir doc keys rehash
    by (auto simp: rrel)
qed

text \<open>
  The verification of an exported package on any disk that still holds its folder and
  its \<open>checksums.json\<close>: the answer is built from the files as they are on that disk.
\<close>

lemma verify_recomputes:
  assumes ex: "exportMRVPackage e db fs plotId = (Inr r, db', fs')"
    and rd: "verify_can_read e r"
    and sp: "still_packaged r fs' fs2"
  shows "get_verify e db' fs2 (res_pkgId r) = spec_verify e r fs2"
proof -
  let ?folder = "path_join (path_join (cwd e) ''storage'') (res_relBase r)"
  from export_package_facts [OF ex] obtain cs row
    where found: "find (\<lambda>x. pkg_id x = res_pkgId r) (packages db') = Some row"
      and row: "checksum row = res_topHash r" "ledgerTxId row = None"
        "artifactsUri row = res_artifactsUri r"
      and folder: "remove_first ''file://'' (res_artifactsUri r) = ?folder"
      and doc: "files fs' (path_join ?folder ''checksums.json'') = Some (ChecksumsDoc cs)"
      and keys: "object_keys cs = artifact_keys (res_relBase r)"
    by blast
  have dir2: "existsSync fs2 ?folder"
    and doc2: "files fs2 (path_join ?folder ''checksums.json'') = Some (ChecksumsDoc cs)"
    using sp doc by (simp_all add: still_packaged_def folder)
  have readable: "\<not> db_fails e SelectPackage"
    "\<not> read_fails e (path_join ?folder ''checksums.json'')"
    using rd by (simp_all add: verify_can_read_def folder)
  show ?thesis
    using found dir2 doc2 readable
    by (simp add: get_verify_def row folder keys Let_def existsSync_def spec_verify_def
          spec_aggregate_def file_digests_hash_all sha256OfString_def
          split: sum.splits)
qed

text \<open>
  Claim C4. When \<open>exportMRVPackage\<close> has returned a package and the verification can read
  the package row and \<open>checksums.json\<close>, verifying the returned package id at once answers
  \<open>matches = true\<close>. Both sides compute the same aggregate: the stored hash is the
  aggregate of the files on the disk the export left (keys sorted, one SHA-256 digest per
  file, joined by a bar, hashed), and on every disk that still holds the package folder
  and its \<open>checksums.json\<close> the verification recomputes that aggregate from the files as
  they are then, answers status 500 when one of them cannot be hashed, and otherwise
  answers \<open>matches\<close> exactly when the recomputed aggregate is the stored one.
\<close>

theorem export_then_verify_matches:
  assumes ex: "exportMRVPackage e db fs plotId = (Inr r, db', fs')"
    and rd: "verify_can_read e r"
  shows "get_verify e db' fs' (res_pkgId r) =
           Inr \<lparr>v_pkgId = res_pkgId r, storedChecksum = res_topHash r,
                recomputedChecksum = res_topHash r, matches = True, v_ledgerTxId = None\<rparr>
         \<and> spec_aggregate e fs' (artifact_keys (res_relBase r)) = Some (res_topHash r)
         \<and> (\<forall>fs2. still_packaged r fs' fs2 \<longrightarrow>
               get_verify e db' fs2 (res_pkgId r) = spec_verify e r fs2)"
proof -
  from export_package_facts [OF ex] obtain cs row
    where folder: "remove_first ''file://'' (res_artifactsUri r) =
                     path_join (path_join (cwd e) ''storage'') (res_relBase r)"
      and dir: "existsSync fs' (path_join (path_join (cwd e) ''storage'') (res_relBase r))"
      and keys: "object_keys cs = artifact_keys (res_relBase r)"
      and top: "res_topHash r = top_level_hash e cs"
      and rehash: "hash_all e fs' (map (\<lambda>k. path_join (path_join (cwd e) ''storage'') k)
                                     (sort (object_keys cs))) =
                     Inr (map (\<lambda>k. object_get cs k) (sort (object_keys cs)))"
    by blast
  have agg: "spec_aggregate e fs' (artifact_keys (res_relBase r)) = Some (res_topHash r)"
    using rehash
    by (simp add: spec_aggregate_def file_digests_hash_all keys [symmetric] top
          top_level_hash_def sha256OfString_def)
  have self: "still_packaged r fs' fs'"
    using dir by (simp add: still_packaged_def folder)
  have "get_verify e db' fs' (res_pkgId r) = spec_verify e r fs'"
    by (rule verify_recomputes [OF ex rd self])
  with agg have here: "get_verify e db' fs' (res_pkgId r) =
           Inr \<lparr>v_pkgId = res_pkgId r, storedChecksum = res_topHash r,
                recomputedChecksum = res_topHash r, matches = True, v_ledgerTxId = None\<rparr>"
    by (simp add: spec_verify_def)
  from here agg verify_recomputes [OF ex rd] show ?thesis
    by blast
qed

section \<open>An export in which nothing fails\<close>

lemma same_prefix_le: "(a @ x \<le> a @ y) = (x \<le> (y :: string))"
  by (induction a) simp_all

lemma sorted_artifact_keys:
  "sort [pInputs r, pOutputs r, pManifest r, pReport r] =
     [pInputs r, pManifest r, pOutputs r, pReport r]"
  by (simp add: pInputs_def pOutputs_def pManifest_def pReport_def path_join_def same_prefix_le)

lemma top_level_hash_four:
  "top_level_hash e [(pInputs r, hi), (pOutputs r, ho), (pManifest r, hm), (pReport r, hr)] =
     sha256OfString e (join_with ''|'' [hi, hm, ho, hr])"
proof -
  have d: "distinct [pInputs r, pOutputs r, pManifest r, pReport r]"
    by (rule export_keys_distinct)
  then have k: "object_keys [(pInputs r, hi), (pOutputs r, ho), (pManifest r, hm), (pReport r, hr)]
      = [pInputs r, pOutputs r, pManifest r, pReport r]"
    by (simp add: object_keys_def)
  show ?thesis
    unfolding top_level_hash_def k sorted_artifact_keys Let_def
    using d by (simp add: object_get_def)
qed

lemma writeFileRel_returns:
  assumes "\<And>p. \<not> write_fails e p"
  shows "\<exists>fs'. writeFileRel e fs p c = (Inr (''file://'' @ path_join (BASE e) p), fs')
           \<and> files fs' = (files fs)(path_join (BASE e) p \<mapsto> c)"
  using assms
  by (simp add: writeFileRel_def ensureStorage_def mkdirSync_recursive_def Let_def)

lemma write_files_returns:
  assumes "\<And>p. \<not> write_fails e p"
  shows "\<exists>fs'. write_files e fs ws = (Inr (), fs')
           \<and> files fs' = foldl (\<lambda>f (p, c). f(path_join (BASE e) p \<mapsto> c)) (files fs) ws"
proof (induction ws arbitrary: fs)
  case Nil
  then show ?case by simp
next
  case (Cons w ws)
  obtain p c where w: "w = (p, c)" by (cases w)
  from writeFileRel_returns [OF assms, of fs p c] obtain fs1
    where 1: "writeFileRel e fs p c = (Inr (''file://'' @ path_join (BASE e) p), fs1)"
      and 2: "files fs1 = (files fs)(path_join (BASE e) p \<mapsto> c)"
    by blast
  from Cons.IH [of fs1] show ?case by (simp add: w 1 2)
qed

lemma write_package_returns:
  assumes wf: "\<And>p. \<not> write_fails e p" and rf: "\<And>p. \<not> read_fails e p"
  shows "\<exists>fs'. write_package e fs r docs =
           (Inr [(pInputs r, sha256 e (Text (inputs_json docs))),
                 (pOutputs r, sha256 e (Text (outputs_json docs))),
                 (pManifest r, sha256 e (Text (manifest_json docs))),
                 (pReport r, sha256 e (Text (summary_md docs)))], fs')
         \<and> files fs' (path_join (BASE e) (pInputs r)) = Some (Text (inputs_json docs))
         \<and> files fs' (path_join (BASE e) (pOutputs r)) = Some (Text (outputs_json docs))
         \<and> files fs' (path_join (BASE e) (pManifest r)) = Some (Text (manifest_json docs))
         \<and> files fs' (path_join (BASE e) (pReport r)) = Some (Text (summary_md docs))"
proof -
  let ?ws = "[(pInputs r, Text (inputs_json docs)), (pOutputs r, Text (outputs_json docs)),
              (pManifest r, Text (manifest_json docs)), (pReport r, Text (summary_md docs))]"
  let ?cs = "[(pInputs r, sha256 e (Text (inputs_json docs))),
              (pOutputs r, sha256 e (Text (outputs_json docs))),
              (pManifest r, sha256 e (Text (manifest_json docs))),
              (pReport r, sha256 e (Text (summary_md docs)))]"
  from write_files_returns [OF wf, of fs ?ws] obtain fs1
    where w: "write_files e fs ?ws = (Inr (), fs1)"
      and f: "files fs1 = foldl (\<lambda>f (p, c). f(path_join (BASE e) p \<mapsto> c)) (files fs) ?ws"
    by blast
  have at: "files fs1 (path_join (BASE e) (pInputs r)) = Some (Text (inputs_json docs))"
    "files fs1 (path_join (BASE e) (pOutputs r)) = Some (Text (outputs_json docs))"
    "files fs1 (path_join (BASE e) (pManifest r)) = Some (Text (manifest_json docs))"
    "files fs1 (path_join (BASE e) (pReport r)) = Some (Text (summary_md docs))"
    by (simp_all add: f pInputs_def pOutputs_def pManifest_def pReport_def path_join_def)
  have h: "hash_entries e fs1 [pInputs r, pOutputs r, pManifest r, pReport r] = Inr ?cs"
    using at rf by (simp add: storage_path [simplified] sha256OfFile_def existsSync_def)
  from writeFileRel_returns [OF wf, of fs1 "pChecks r" "ChecksumsDoc ?cs"] obtain fs2
    where c: "writeFileRel e fs1 (pChecks r) (ChecksumsDoc ?cs) =
                (Inr (''file://'' @ path_join (BASE e) (pChecks r)), fs2)"
      and f2: "files fs2 = (files fs1)(path_join (BASE e) (pChecks r) \<mapsto> ChecksumsDoc ?cs)"
    by blast
  have at2: "files fs2 (path_join (BASE e) (pInputs r)) = Some (Text (inputs_json docs))"
    "files fs2 (path_join (BASE e) (pOutputs r)) = Some (Text (outputs_json docs))"
    "files fs2 (path_join (BASE e) (pManifest r)) = Some (Text (manifest_json docs))"
    "files fs2 (path_join (BASE e) (pReport r)) = Some (Text (summary_md docs))"
    using at
    by (simp_all add: f2 pInputs_def pOutputs_def pManifest_def pReport_def pChecks_def
          path_join_def)
  have "write_package e fs r docs = (Inr ?cs, fs2)"
    using w h c by (simp add: write_package_def del: write_files.simps hash_entries.simps)
  with at2 show ?thesis by blast
qed

text \<open>
  When the plot exists, the id of the new row is free and no file or database operation
  fails, the export returns: the package id is the one the database gave, and the
  top-level hash is the hash of the four digests in the order inputs, manifest, outputs,
  report, which is the sorted order of their paths.
\<close>

lemma export_returns:
  assumes wf: "\<And>p. \<not> write_fails e p" and rf: "\<And>p. \<not> read_fails e p"
    and df: "\<And>q. \<not> db_fails e q"
    and plot: "find (\<lambda>p. plot_id p = plotId) (plot_rows db) = Some plot"
    and fresh: "new_pkg_id e \<notin> set (map pkg_id (packages db))"
  shows "fst (exportMRVPackage e db fs plotId) =
     Inr \<lparr>res_pkgId = new_pkg_id e,
          res_topHash = sha256OfString e (join_with ''|''
             [sha256 e (Text (inputs_json (render e plotId))),
              sha256 e (Text (manifest_json (render e plotId))),
              sha256 e (Text (outputs_json (render e plotId))),
              sha256 e (Text (summary_md (render e plotId)))]),
          res_artifactsUri = ''file://'' @ path_join (path_join (cwd e) ''storage'')
                                             (package_relBase e plotId),
          res_relBase = package_relBase e plotId\<rparr>"
    and "files (snd (snd (exportMRVPackage e db fs plotId)))
           (path_join (BASE e) (pInputs (package_relBase e plotId))) =
         Some (Text (inputs_json (render e plotId)))"
    and "files (snd (snd (exportMRVPackage e db fs plotId)))
           (path_join (BASE e) (pOutputs (package_relBase e plotId))) =
         Some (Text (outputs_json (render e plotId)))"
    and "files (snd (snd (exportMRVPackage e db fs plotId)))
           (path_join (BASE e) (pManifest (package_relBase e plotId))) =
         Some (Text (manifest_json (render e plotId)))"
    and "files (snd (snd (exportMRVPackage e db fs plotId)))
           (path_join (BASE e) (pReport (package_relBase e plotId))) =
         Some (Text (summary_md (render e plotId)))"
proof -
  let ?rel = "package_relBase e plotId"
  let ?docs = "render e plotId"
  obtain fs0 where es: "ensureStorage e fs = Inr fs0"
    by (cases "existsSync fs (BASE e)") (simp_all add: ensureStorage_def mkdirSync_recursive_def wf)
  from write_package_returns [OF wf rf, of fs0 ?rel ?docs]
  obtain fs2 where wp: "write_package e fs0 ?rel ?docs =
           (Inr [(pInputs ?rel, sha256 e (Text (inputs_json ?docs))),
                 (pOutputs ?rel, sha256 e (Text (outputs_json ?docs))),
                 (pManifest ?rel, sha256 e (Text (manifest_json ?docs))),
                 (pReport ?rel, sha256 e (Text (summary_md ?docs)))],
            fs2)"
    and at: "files fs2 (path_join (BASE e) (pInputs ?rel)) = Some (Text (inputs_json ?docs))"
      "files fs2 (path_join (BASE e) (pOutputs ?rel)) = Some (Text (outputs_json ?docs))"
      "files fs2 (path_join (BASE e) (pManifest ?rel)) = Some (Text (manifest_json ?docs))"
      "files fs2 (path_join (BASE e) (pReport ?rel)) = Some (Text (summary_md ?docs))"
    by blast
  have whole: "exportMRVPackage e db fs plotId =
     (Inr \<lparr>res_pkgId = new_pkg_id e,
          res_topHash = sha256OfString e (join_with ''|''
             [sha256 e (Text (inputs_json ?docs)), sha256 e (Text (manifest_json ?docs)),
              sha256 e (Text (outputs_json ?docs)), sha256 e (Text (summary_md ?docs))]),
          res_artifactsUri = ''file://'' @ path_join (path_join (cwd e) ''storage'') ?rel,
          res_relBase = ?rel\<rparr>,
      snd (persist_package e db plot plotId ?rel
        (sha256OfString e (join_with ''|''
             [sha256 e (Text (inputs_json ?docs)), sha256 e (Text (manifest_json ?docs)),
              sha256 e (Text (outputs_json ?docs)), sha256 e (Text (summary_md ?docs))]))),
      fs2)"
    using df fresh
    by (simp add: exportMRVPackage_def es plot wp Let_def top_level_hash_four
          persist_package_def)
  show "fst (exportMRVPackage e db fs plotId) =
     Inr \<lparr>res_pkgId = new_pkg_id e,
          res_topHash = sha256OfString e (join_with ''|''
             [sha256 e (Text (inputs_json (render e plotId))),
              sha256 e (Text (manifest_json (render e plotId))),
              sha256 e (Text (outputs_json (render e plotId))),
              sha256 e (Text (summary_md (render e plotId)))]),
          res_artifactsUri = ''file://'' @ path_join (path_join (cwd e) ''storage'')
                                             (package_relBase e plotId),
          res_relBase = package_relBase e plotId\<rparr>"
    by (simp add: whole)
  show "files (snd (snd (exportMRVPackage e db fs plotId)))
           (path_join (BASE e) (pInputs (package_relBase e plotId))) =
         Some (Text (inputs_json (render e plotId)))"
    "files (snd (snd (exportMRVPackage e db fs plotId)))
           (path_join (BASE e) (pOutputs (package_relBase e plotId))) =
         Some (Text (outputs_json (render e plotId)))"
    "files (snd (snd (exportMRVPackage e db fs plotId)))
           (path_join (BASE e) (pManifest (package_relBase e plotId))) =
         Some (Text (manifest_json (render e plotId)))"
    "files (snd (snd (exportMRVPackage e db fs plotId)))
           (path_join (BASE e) (pReport (package_relBase e plotId))) =
         Some (Text (summary_md (render e plotId)))"
    by (simp_all add: whole at)
qed

theorem export_then_verify_matches_witness:
  "fst (exportMRVPackage demo_env demo_db empty_disk ''p1'') = Inr demo_result
   \<and> verify_can_read demo_env demo_result
   \<and> get_verify demo_env
       (fst (snd (exportMRVPackage demo_env demo_db empty_disk ''p1'')))
       (snd (snd (exportMRVPackage demo_env demo_db empty_disk ''p1''))) ''pkg1'' =
       Inr \<lparr>v_pkgId = ''pkg1'', storedChecksum = ''##in|#man|#out|#sum'',
            recomputedChecksum = ''##in|#man|#out|#sum'', matches = True,
            v_ledgerTxId = None\<rparr>
   \<and> still_packaged demo_result
       (snd (snd (exportMRVPackage demo_env demo_db empty_disk ''p1'')))
       (tampered (snd (snd (exportMRVPackage demo_env demo_db empty_disk ''p1''))))
   \<and> get_verify demo_env
       (fst (snd (exportMRVPackage demo_env demo_db empty_disk ''p1'')))
       (tampered (snd (snd (exportMRVPackage demo_env demo_db empty_disk ''p1'')))) ''pkg1'' =
       Inr \<lparr>v_pkgId = ''pkg1'', storedChecksum = ''##in|#man|#out|#sum'',
            recomputedChecksum = ''##IN|#man|#out|#sum'', matches = False,
            v_ledgerTxId = None\<rparr>"
proof -
  let ?X = "exportMRVPackage demo_env demo_db empty_disk ''p1''"
  let ?fs = "snd (snd ?X)"
  have rel: "package_relBase demo_env ''p1'' = ''packages/mrv_pkg_p1_20250823T053158Z''"
    by (simp add: package_relBase_def demo_env_def path_join_def Let_def)
  have nf: "\<And>p. \<not> write_fails demo_env p" "\<And>p. \<not> read_fails demo_env p"
    "\<And>q. \<not> db_fails demo_env q"
    by (simp_all add: demo_env_def never_def)
  have plot: "find (\<lambda>p. plot_id p = ''p1'') (plot_rows demo_db) =
                Some \<lparr>plot_id = ''p1'', plot_name = ''North field''\<rparr>"
    and fresh: "new_pkg_id demo_env \<notin> set (map pkg_id (packages demo_db))"
    by (simp_all add: demo_db_def)
  note er = export_returns [of demo_env "''p1''" demo_db _ empty_disk, OF nf plot fresh]
  have r: "fst ?X = Inr demo_result"
    using er(1)
    by (simp add: rel) (simp add: demo_env_def demo_result_def sha256OfString_def demo_sha_def
          demo_docs_def path_join_def)
  have content: "files ?fs ''/app/storage/packages/mrv_pkg_p1_20250823T053158Z/inputs/trees.json''
        = Some (Text ''in'')"
    "files ?fs ''/app/storage/packages/mrv_pkg_p1_20250823T053158Z/outputs/estimates.json''
        = Some (Text ''out'')"
    "files ?fs ''/app/storage/packages/mrv_pkg_p1_20250823T053158Z/manifest.json''
        = Some (Text ''man'')"
    "files ?fs ''/app/storage/packages/mrv_pkg_p1_20250823T053158Z/reports/summary.md''
        = Some (Text ''sum'')"
    using er(2-5)
    by (simp_all add: rel)
       (simp_all add: demo_env_def demo_docs_def BASE_def pInputs_def pOutputs_def
          pManifest_def pReport_def path_join_def)
  have ex: "?X = (Inr demo_result, fst (snd ?X), ?fs)"
    using r by (metis prod.collapse)
  have rd: "verify_can_read demo_env demo_result"
    by (simp add: verify_can_read_def demo_env_def never_def)
  note main = export_then_verify_matches [OF ex rd]
  from main have here: "get_verify demo_env (fst (snd ?X)) ?fs ''pkg1'' =
       Inr \<lparr>v_pkgId = ''pkg1'', storedChecksum = ''##in|#man|#out|#sum'',
            recomputedChecksum = ''##in|#man|#out|#sum'', matches = True,
            v_ledgerTxId = None\<rparr>"
    by (simp add: demo_result_def)
  from export_package_facts [OF ex]
  have "existsSync ?fs (path_join (path_join (cwd demo_env) ''storage'')
                          (res_relBase demo_result))"
    by blast
  then have "existsSync ?fs ''/app/storage/packages/mrv_pkg_p1_20250823T053158Z''"
    by (simp add: demo_result_def demo_env_def path_join_def)
  then have sp: "still_packaged demo_result ?fs (tampered ?fs)"
    by (simp add: still_packaged_def tampered_def demo_result_def existsSync_def path_join_def)
  have agg: "spec_aggregate demo_env (tampered ?fs) (artifact_keys (res_relBase demo_result)) =
      Some ''##IN|#man|#out|#sum''"
    using content
    by (simp add: spec_aggregate_def artifact_keys_def sorted_artifact_keys)
       (simp add: demo_result_def tampered_def pInputs_def pOutputs_def pManifest_def
          pReport_def path_join_def demo_env_def never_def demo_sha_def)
  from main sp have "get_verify demo_env (fst (snd ?X)) (tampered ?fs) (res_pkgId demo_result) =
      spec_verify demo_env demo_result (tampered ?fs)"
    by blast
  then have there: "get_verify demo_env (fst (snd ?X)) (tampered ?fs) ''pkg1'' =
       Inr \<lparr>v_pkgId = ''pkg1'', storedChecksum = ''##in|#man|#out|#sum'',
            recomputedChecksum = ''##IN|#man|#out|#sum'', matches = False,
            v_ledgerTxId = None\<rparr>"
    by (simp add: spec_verify_def agg) (simp add: demo_result_def)
  from r rd here sp there show ?thesis by simp
qed

section \<open>Verification reads the keys of \<open>checksums.json\<close> only\<close>

lemma sha256OfFile_by_content:
  "sha256OfFile e fs p =
     (case files fs p of
        None \<Rightarrow> Inl (HashError p)
      | Some buf \<Rightarrow> if read_fails e p then Inl (HashError p) else Inr (sha256 e buf))"
  by (simp add: sha256OfFile_def existsSync_def split: option.splits)

lemma hash_all_cong:
  "(\<forall>p \<in> set ps. files fs1 p = files fs2 p) \<Longrightarrow> hash_all e fs1 ps = hash_all e fs2 ps"
proof (induction ps)
  case Nil
  then show ?case by simp
next
  case (Cons p ps)
  then have "files fs1 p = files fs2 p" and "hash_all e fs1 ps = hash_all e fs2 ps"
    by simp_all
  then show ?case by (simp add: sha256OfFile_by_content split: sum.splits option.splits)
qed

lemma sorted_keys_by_set:
  "set (map fst cs1) = set (map fst cs2) \<Longrightarrow> sort (object_keys cs1) = sort (object_keys cs2)"
  by (simp add: object_keys_def sorted_list_of_set_sort_remdups [symmetric])

text \<open>
  Claim C10. Take a stored package and two disks on which its \<open>checksums.json\<close> lists
  the same set of keys, on which the file of every key has the same content, and on
  which the package folder is present alike. Then the verification answers the same on
  both, whatever digests the two \<open>checksums.json\<close> record: the recomputed checksum and
  \<open>matches\<close> are built from the files hashed afresh.
\<close>

theorem verify_ignores_recorded_digests:
  assumes pkg: "find (\<lambda>r. pkg_id r = pkgId) (packages db) = Some pkg"
    and c1: "files fs1 (checksums_path pkg) = Some (ChecksumsDoc cs1)"
    and c2: "files fs2 (checksums_path pkg) = Some (ChecksumsDoc cs2)"
    and keys: "set (map fst cs1) = set (map fst cs2)"
    and same: "same_artifacts e fs1 fs2 (map fst cs1)"
    and folder: "existsSync fs1 (package_folder pkg) = existsSync fs2 (package_folder pkg)"
  shows "get_verify e db fs1 pkgId = get_verify e db fs2 pkgId"
proof -
  let ?ps = "map (\<lambda>k. path_join (path_join (cwd e) ''storage'') k) (sort (object_keys cs1))"
  have s: "sort (object_keys cs1) = sort (object_keys cs2)"
    by (rule sorted_keys_by_set [OF keys])
  have "\<forall>p \<in> set ?ps. files fs1 p = files fs2 p"
    using same by (auto simp: same_artifacts_def list_all_iff object_keys_def)
  then have h: "hash_all e fs1 ?ps = hash_all e fs2 ?ps"
    by (rule hash_all_cong)
  have ex: "existsSync fs1 (checksums_path pkg)" "existsSync fs2 (checksums_path pkg)"
    using c1 c2 by (simp_all add: existsSync_def)
  show ?thesis
    using pkg c1 c2 folder ex h s
    by (simp add: get_verify_def Let_def checksums_path_def package_folder_def)
qed

lemma verify_disk:
  assumes "doc = honest_doc \<or> doc = forged_doc"
  shows "get_verify demo_env pkg_db (disk_with doc) ''pkg7'' =
     Inr \<lparr>v_pkgId = ''pkg7'', storedChecksum = ''##a|#b'', recomputedChecksum = ''##a|#b'',
          matches = True, v_ledgerTxId = None\<rparr>"
  using assms
  by (auto simp: get_verify_def pkg_db_def disk_with_def demo_env_def never_def Let_def
        existsSync_def path_join_def object_keys_def sha256OfFile_def sha256OfString_def
        demo_sha_def honest_doc_def forged_doc_def)

theorem verify_ignores_recorded_digests_witness:
  "get_verify demo_env pkg_db (disk_with honest_doc) ''pkg7'' =
     get_verify demo_env pkg_db (disk_with forged_doc) ''pkg7''
   \<and> get_verify demo_env pkg_db (disk_with forged_doc) ''pkg7'' =
     Inr \<lparr>v_pkgId = ''pkg7'', storedChecksum = ''##a|#b'', recomputedChecksum = ''##a|#b'',
          matches = True, v_ledgerTxId = None\<rparr>"
proof -
  let ?pkg = "\<lparr>pkg_id = ''pkg7'', runId = ''run1'', schemaVersion = ''1.0'',
               artifactsUri = ''file:///app/storage/packages/x'',
               checksum = ''##a|#b'', ledgerTxId = None\<rparr>"
  have pkg: "find (\<lambda>r. pkg_id r = ''pkg7'') (packages pkg_db) = Some ?pkg"
    by (simp add: pkg_db_def)
  have p: "checksums_path ?pkg = ''/app/storage/packages/x/checksums.json''"
    by (simp add: checksums_path_def package_folder_def path_join_def)
  have c1: "files (disk_with honest_doc) (checksums_path ?pkg) = Some (ChecksumsDoc honest_doc)"
    and c2: "files (disk_with forged_doc) (checksums_path ?pkg) = Some (ChecksumsDoc forged_doc)"
    by (simp_all add: p disk_with_def)
  have keys: "set (map fst honest_doc) = set (map fst forged_doc)"
    by (auto simp: honest_doc_def forged_doc_def)
  have same: "same_artifacts demo_env (disk_with honest_doc) (disk_with forged_doc)
                (map fst honest_doc)"
    by (simp add: same_artifacts_def honest_doc_def disk_with_def demo_env_def path_join_def)
  have folder: "existsSync (disk_with honest_doc) (package_folder ?pkg) =
                  existsSync (disk_with forged_doc) (package_folder ?pkg)"
    by (simp add: existsSync_def disk_with_def package_folder_def)
  show ?thesis
    using verify_ignores_recorded_digests [OF pkg c1 c2 keys same folder]
      verify_disk [of forged_doc]
    by simp
qed

section \<open>Failures of the export\<close>

lemma persist_package_failure:
  "persist_package e db plot plotId relBase topHash = (Inl err, db') \<Longrightarrow> db' = db"
  by (auto simp: persist_package_def Let_def split: if_splits)

text \<open>
  Whatever makes the export fail (the storage root, the plot, a query, a write, a hash,
  the insert), the database is left as it was: no package row is persisted.
\<close>

lemma export_failure_keeps_database:
  assumes "exportMRVPackage e db fs plotId = (Inl err, db', fs')"
  shows "db' = db"
  using assms
  by (auto simp: exportMRVPackage_def Let_def dest: persist_package_failure
        split: sum.splits option.splits if_splits prod.splits)

text \<open>
  A package row is inserted only after the files are on the disk: when the export
  returns, the four artifacts and \<open>checksums.json\<close> are there, and one row has been added
  to the table.
\<close>

lemma export_success_files:
  assumes ex: "exportMRVPackage e db fs plotId = (Inr r, db', fs')"
    and k: "k \<in> set [pInputs (res_relBase r), pOutputs (res_relBase r),
                      pManifest (res_relBase r), pReport (res_relBase r),
                      pChecks (res_relBase r)]"
  shows "files fs' (path_join (BASE e) k) \<noteq> None
         \<and> length (packages db') = length (packages db) + 1"
proof -
  let ?rel = "package_relBase e plotId"
  from export_success [OF ex] obtain fs0 plot cs
    where wp: "write_package e fs0 ?rel (render e plotId) = (Inr cs, fs')"
      and pp: "persist_package e db plot plotId ?rel (top_level_hash e cs) = (Inr r, db')"
    by blast
  from write_package_success [OF wp] obtain fs1 u
    where he: "hash_entries e fs1 [pInputs ?rel, pOutputs ?rel, pManifest ?rel, pReport ?rel]
                 = Inr cs"
      and wc: "writeFileRel e fs1 (pChecks ?rel) (ChecksumsDoc cs) = (Inr u, fs')"
    by blast
  have rel: "res_relBase r = ?rel" and len: "length (packages db') = length (packages db) + 1"
    using pp by (auto simp: persist_package_def Let_def split: if_splits)
  from hash_entries_Inr [OF he]
  have keys: "map fst cs = [pInputs ?rel, pOutputs ?rel, pManifest ?rel, pReport ?rel]"
    and dig: "\<forall>(k, d) \<in> set cs. sha256OfFile e fs1 (path_join (BASE e) k) = Inr d"
    by simp_all
  have old: "files fs1 (path_join (BASE e) k') \<noteq> None"
    if "k' \<in> set [pInputs ?rel, pOutputs ?rel, pManifest ?rel, pReport ?rel]" for k'
  proof -
    from that keys obtain d where "(k', d) \<in> set cs" by force
    with dig have "sha256OfFile e fs1 (path_join (BASE e) k') = Inr d" by auto
    then show ?thesis by (auto simp: sha256OfFile_Inr)
  qed
  have "files fs' (path_join (BASE e) k) \<noteq> None"
    using k old writeFileRel_ok(1) [OF wc] by (auto simp: rel)
  with len show ?thesis by simp
qed

text \<open>
  A plot id that does not resolve: the export fails with \<open>Plot not found\<close>, the database
  and the files are untouched, and the storage root has been created if it was missing.
\<close>

lemma export_missing_plot:
  assumes "find (\<lambda>p. plot_id p = plotId) (plot_rows db) = None"
    and "\<not> db_fails e SelectPlot" and "\<not> write_fails e (BASE e)"
  shows "\<exists>fs'. exportMRVPackage e db fs plotId = (Inl PlotNotFound, db, fs')
           \<and> files fs' = files fs \<and> dirs fs \<subseteq> dirs fs'"
  using assms
  by (auto simp: exportMRVPackage_def ensureStorage_def mkdirSync_recursive_def)

text \<open>
  Claim C6 at a plot id that does not resolve. The export fails with \<open>Plot not found\<close> and
  the package table is unchanged, as the claim says; but the route answers with status
  500, which is not a client error, and the storage root has been created on the disk
  before the plot was looked up.
\<close>

theorem missing_plot_answered_500:
  "fst (post_export demo_env demo_db empty_disk ''nope'') = Inl (500, PlotNotFound)
   \<and> \<not> is_client_error 500
   \<and> fst (snd (post_export demo_env demo_db empty_disk ''nope'')) = demo_db
   \<and> ''/app/storage'' \<in> dirs (snd (snd (post_export demo_env demo_db empty_disk ''nope'')))
   \<and> ''/app/storage'' \<notin> dirs empty_disk"
  by (simp add: post_export_def exportMRVPackage_def ensureStorage_def mkdirSync_recursive_def
        existsSync_def demo_env_def demo_db_def empty_disk_def never_def BASE_def path_join_def
        is_client_error_def self_in_ancestors)

end
